theory Spec2Isabelle
  imports Main
begin

section \<open>Rate limiter (src/utils/validation.js, class RateLimiter)\<close>

text \<open>
  The limiter keeps one mutable object per key in a JavaScript \<open>Map\<close>. The object has the
  fields \<open>count\<close>, \<open>resetTime\<close> and \<open>firstAttempt\<close>; all three are JavaScript numbers that
  only ever hold integers (counts and epoch milliseconds). The map is passed explicitly and
  returned updated; \<open>Date.now()\<close> is the parameter \<open>now\<close>.
\<close>

record key_attempts =
  count :: int
  resetTime :: int
  firstAttempt :: int

type_synonym limiter = "string \<rightharpoonup> key_attempts"

text \<open>
  \<open>isAllowed(key, maxAttempts = 8, timeWindow = 180000)\<close>. The branches are in the order of
  the source. In the last branch the source increments the object that is already stored in
  the map, which is the map update written here.
\<close>

definition isAllowed :: "int \<Rightarrow> string \<Rightarrow> int \<Rightarrow> int \<Rightarrow> limiter \<Rightarrow> limiter \<times> bool" where
  "isAllowed now key maxAttempts timeWindow m =
     (let keyAttempts = (case m key of
                           Some r \<Rightarrow> r
                         | None \<Rightarrow> \<lparr>count = 0, resetTime = now + timeWindow, firstAttempt = now\<rparr>)
      in if now > resetTime keyAttempts then
           (m(key \<mapsto> \<lparr>count = 1, resetTime = now + timeWindow, firstAttempt = now\<rparr>), True)
         else if count keyAttempts = 0 then
           (m(key \<mapsto> keyAttempts\<lparr>count := 1, firstAttempt := now\<rparr>), True)
         else if count keyAttempts \<ge> 3 \<and> count keyAttempts < maxAttempts
                 \<and> now - firstAttempt keyAttempts < 30000 then
           (m, False)
         else if count keyAttempts \<ge> maxAttempts then
           (m, False)
         else
           (m(key \<mapsto> keyAttempts\<lparr>count := count keyAttempts + 1\<rparr>), True))"

text \<open>\<open>getRemainingTime(key)\<close>; the bound 8 is a literal in the source.\<close>

definition getRemainingTime :: "int \<Rightarrow> string \<Rightarrow> limiter \<Rightarrow> int" where
  "getRemainingTime now key m =
     (case m key of
        None \<Rightarrow> 0
      | Some keyAttempts \<Rightarrow>
          if count keyAttempts \<ge> 3 \<and> count keyAttempts < 8
             \<and> now < firstAttempt keyAttempts + 30000
          then max 0 (firstAttempt keyAttempts + 30000 - now)
          else max 0 (resetTime keyAttempts - now))"

definition clearAttempts :: "string \<Rightarrow> limiter \<Rightarrow> limiter" where
  "clearAttempts key m = m(key := None)"

text \<open>
  \<open>getStatus(key)\<close> builds an object literal whose properties are evaluated in order:
  \<open>attempts\<close> reads the count before \<open>isAllowed(key)\<close> runs (with the default limits 8 and
  180000), and \<open>isBlocked\<close> is \<open>!this.isAllowed(key) && keyAttempts.count > 0\<close>. The right
  operand is only evaluated when \<open>isAllowed\<close> returned false, and on those branches the stored
  object is untouched, so it reads the same count. The first return of the source has no
  \<open>maxAttempts\<close> property.
\<close>

record limiter_status =
  attempts :: int
  isBlocked :: bool
  remainingTime :: int
  maxAttempts :: "int option"

definition getStatus :: "int \<Rightarrow> string \<Rightarrow> limiter \<Rightarrow> limiter \<times> limiter_status" where
  "getStatus now key m =
     (case m key of
        None \<Rightarrow> (m, \<lparr>attempts = 0, isBlocked = False, remainingTime = 0, maxAttempts = None\<rparr>)
      | Some keyAttempts \<Rightarrow>
          (let remaining = getRemainingTime now key m;
               seen = count keyAttempts;
               (m', allowed) = isAllowed now key 8 180000 m
           in (m', \<lparr>attempts = seen,
                    isBlocked = (\<not> allowed \<and> count keyAttempts > 0),
                    remainingTime = remaining,
                    maxAttempts = Some 8\<rparr>)))"

text \<open>
  A caller that invokes \<open>isAllowed\<close> several times with no time elapsing between the calls:
  the results in call order, and the limiter after the last call.
\<close>

fun rapid_calls :: "int \<Rightarrow> string \<Rightarrow> int \<Rightarrow> int \<Rightarrow> nat \<Rightarrow> limiter \<Rightarrow> bool list \<times> limiter" where
  "rapid_calls now key maxA win 0 m = ([], m)"
| "rapid_calls now key maxA win (Suc n) m =
     (let (m1, ok) = isAllowed now key maxA win m;
          (oks, m2) = rapid_calls now key maxA win n m1
      in (ok # oks, m2))"

text \<open>The same for \<open>getStatus\<close>: the limiter after \<open>n\<close> status queries at one instant.\<close>

fun rapid_status :: "int \<Rightarrow> string \<Rightarrow> nat \<Rightarrow> limiter \<Rightarrow> limiter" where
  "rapid_status now key 0 m = m"
| "rapid_status now key (Suc n) m = rapid_status now key n (fst (getStatus now key m))"

section \<open>JavaScript values, errors and the device storage\<close>

text \<open>
  The values that travel through \<open>JSON.stringify\<close> and \<open>JSON.parse\<close>. Numbers are the
  integers the program uses (identifiers, counters, epoch milliseconds); strings are made of
  code units below 256. An object is its list of properties in insertion order. A property
  whose value is \<open>undefined\<close> is represented by the absence of the property, which is also
  what \<open>JSON.stringify\<close> writes.
\<close>

datatype jsval =
    JNull
  | JBool bool
  | JNum int
  | JStr string
  | JArr "jsval list"
  | JObj "(string \<times> jsval) list"

text \<open>JavaScript truthiness, as used by \<open>if (x)\<close>, \<open>!x\<close>, \<open>x || y\<close> and \<open>x ? a : b\<close>.\<close>

fun truthy :: "jsval \<Rightarrow> bool" where
  "truthy JNull = False"
| "truthy (JBool b) = b"
| "truthy (JNum n) = (n \<noteq> 0)"
| "truthy (JStr s) = (s \<noteq> [])"
| "truthy (JArr xs) = True"
| "truthy (JObj kvs) = True"

text \<open>
  \<open>x.k\<close> for a value other than \<open>null\<close>: \<open>None\<close> is \<open>undefined\<close>. Reading a property of
  \<open>null\<close> throws and is written out at each place where it can happen.
\<close>

fun get_prop :: "string \<Rightarrow> jsval \<Rightarrow> jsval option" where
  "get_prop k (JObj kvs) = map_of kvs k"
| "get_prop k v = None"

text \<open>
  Writing a property: an existing key keeps its position, a new key goes to the end.
  \<open>set_props new kvs\<close> writes the properties \<open>new\<close> one after the other over \<open>kvs\<close>, as
  the later parts of an object literal \<open>{...a, ...b, k: v}\<close> do over the earlier ones.
\<close>

definition set_prop :: "string \<Rightarrow> jsval \<Rightarrow> (string \<times> jsval) list \<Rightarrow> (string \<times> jsval) list" where
  "set_prop k v kvs =
     (if k \<in> fst ` set kvs
      then map (\<lambda>(k', v'). if k' = k then (k', v) else (k', v')) kvs
      else kvs @ [(k, v)])"


text \<open>
  An object literal \<open>{k1: e1, k2: e2, ...}\<close> whose values may be \<open>undefined\<close>: those
  properties are left out.
\<close>

definition obj_of :: "(string \<times> jsval option) list \<Rightarrow> (string \<times> jsval) list" where
  "obj_of kvs = foldl (\<lambda>acc (k, v). case v of None \<Rightarrow> acc | Some x \<Rightarrow> set_prop k x acc) [] kvs"

text \<open>
  Thrown values. Every error the program throws or receives is an \<open>Error\<close> object; axios
  errors also carry \<open>code\<close> and \<open>response.status\<close>.
\<close>

record js_error =
  message :: string
  code :: "string option"
  http_status :: "int option"

definition Error :: "string \<Rightarrow> js_error" where
  "Error msg = \<lparr>message = msg, code = None, http_status = None\<rparr>"

text \<open>
  A \<open>TypeError\<close> raised by the engine (a property read on \<open>null\<close> or \<open>undefined\<close>, a call of
  something that is not a function). The wording of its message depends on the engine and is
  fixed to the error's name here.
\<close>

definition TypeError :: js_error where
  "TypeError = Error ''TypeError''"

text \<open>\<open>Error.prototype.toString()\<close> for an error named \<open>Error\<close>.\<close>

definition toString :: "js_error \<Rightarrow> string" where
  "toString e = (if message e = [] then ''Error'' else ''Error: '' @ message e)"

text \<open>\<open>haystack.includes(needle)\<close> on strings.\<close>

fun str_includes :: "string \<Rightarrow> string \<Rightarrow> bool" where
  "str_includes [] needle = (needle = [])"
| "str_includes (c # cs) needle = (take (length needle) (c # cs) = needle \<or> str_includes cs needle)"

text \<open>
  \<open>s.toLowerCase()\<close> on the characters a \<open>string\<close> of this theory can hold (code units
  below 256): the ASCII capitals and the Latin-1 capitals \<open>0xC0..0xDE\<close> other than the
  multiplication sign \<open>0xD7\<close> move up by 32.
\<close>

definition lower_char :: "char \<Rightarrow> char" where
  "lower_char c =
     (let n = (of_char c :: nat)
      in if (65 \<le> n \<and> n \<le> 90) \<or> (192 \<le> n \<and> n \<le> 222 \<and> n \<noteq> 215)
         then char_of (n + 32) else c)"

definition toLowerCase :: "string \<Rightarrow> string" where
  "toLowerCase s = map lower_char s"

text \<open>
  The AsyncStorage of the device: a map from keys to stored texts. A text is abstracted by
  what the program can observe of it: \<open>Json v\<close> is the text \<open>JSON.stringify(v)\<close>, which
  \<open>JSON.parse\<close> turns back into \<open>v\<close>; \<open>Blank\<close> is the empty string, which is falsy and which
  \<open>JSON.parse\<close> rejects; \<open>Garbage\<close> is any other text that \<open>JSON.parse\<close> rejects. The flag
  text \<open>'true'\<close> is \<open>Json (JBool True)\<close>. These are the texts the program writes and the
  texts it cannot read; a JSON text in another layout than the one \<open>JSON.stringify\<close>
  produces is not represented. Reads and writes of the storage itself succeed.
\<close>

datatype stored_text = Json jsval | Blank | Garbage

type_synonym async_storage = "string \<rightharpoonup> stored_text"

text \<open>\<open>JSON.parse(text)\<close>: \<open>None\<close> is the \<open>SyntaxError\<close>.\<close>

fun JSON_parse :: "stored_text \<Rightarrow> jsval option" where
  "JSON_parse (Json v) = Some v"
| "JSON_parse Blank = None"
| "JSON_parse Garbage = None"

text \<open>A stored text is falsy exactly when it is the empty string.\<close>

fun text_truthy :: "stored_text \<Rightarrow> bool" where
  "text_truthy Blank = False"
| "text_truthy t = True"

section \<open>Service status detector and retry (apiOptimization: ServiceStatusDetector, retryWithRenderOptimization)\<close>

record service_status =
  isServiceAsleep :: bool
  lastSuccessfulRequest :: int
  consecutiveFailures :: nat

definition SLEEP_INDICATORS :: "string list" where
  "SLEEP_INDICATORS =
     [''ECONNABORTED'', ''TIMEOUT'', ''Network Error'',
      ''Request failed with status code 503'', ''Request failed with status code 504'']"

definition MAX_RETRIES :: nat where
  "MAX_RETRIES = 3"

definition WAKE_UP_TIMEOUT :: int where "WAKE_UP_TIMEOUT = 90000"
definition NORMAL_TIMEOUT :: int where "NORMAL_TIMEOUT = 15000"
definition RETRY_TIMEOUT :: int where "RETRY_TIMEOUT = 8000"

text \<open>The constructor of the detector, run at time \<open>t\<close>.\<close>

definition new_detector :: "int \<Rightarrow> service_status" where
  "new_detector t = \<lparr>isServiceAsleep = False, lastSuccessfulRequest = t, consecutiveFailures = 0\<rparr>"

definition markSuccess :: "int \<Rightarrow> service_status \<Rightarrow> service_status" where
  "markSuccess t s = \<lparr>isServiceAsleep = False, lastSuccessfulRequest = t, consecutiveFailures = 0\<rparr>"

definition markFailure :: "js_error \<Rightarrow> service_status \<Rightarrow> service_status" where
  "markFailure e s =
     (let s1 = s\<lparr>consecutiveFailures := consecutiveFailures s + 1\<rparr>;
          errorMessage = (if message e \<noteq> [] then message e else toString e);
          isSleepIndicator = (\<exists>indicator \<in> set SLEEP_INDICATORS. str_includes errorMessage indicator)
      in if isSleepIndicator \<or> consecutiveFailures s1 \<ge> 2
         then s1\<lparr>isServiceAsleep := True\<rparr>
         else s1)"

definition shouldUseWakeUpTimeout :: "int \<Rightarrow> service_status \<Rightarrow> bool" where
  "shouldUseWakeUpTimeout t s =
     (isServiceAsleep s \<or> t - lastSuccessfulRequest s > 15 * 60 * 1000)"

text \<open>
  The environment of the data-access layer. \<open>clock\<close> is \<open>Date.now()\<close>; \<open>online\<close> is what
  \<open>checkConnectivity\<close> returns (\<open>isConnected && isInternetReachable !== false\<close>, and false
  when \<open>NetInfo.fetch\<close> fails); \<open>detector\<close> is the module-level \<open>serviceStatusDetector\<close>;
  \<open>server\<close> is the script of what the remote API will answer to the next requests, each
  answer with the time it takes; \<open>requests\<close> records every request sent over the network.
\<close>

datatype request =
    Get_exercises "(string \<times> string) list"
  | Get_exercise string

record world =
  clock :: int
  storage :: async_storage
  online :: bool
  detector :: service_status
  server :: "(int \<times> (js_error + jsval)) list"
  requests :: "request list"

text \<open>
  \<open>retryWithRenderOptimization(fn, context)\<close>; the second parameter is written \<open>ctx\<close>
  here. The operation \<open>fn\<close> receives the timeout and the environment and returns its
  result or the error it threw. The loop variable \<open>attempt\<close> runs from 1 to \<open>MAX_RETRIES\<close>;
  \<open>break\<close> on the last attempt leads to the \<open>throw\<close> after the loop, whose message quotes
  \<open>MAX_RETRIES\<close> by its value 3. The delay before the next attempt is
  \<open>1000 * attempt * 1.5 ^ (attempt - 1)\<close>, which is the integer written here for every
  attempt that is followed by another one. The third component of the result counts the
  calls of \<open>fn\<close>; it is an observation of the run, not a value of the program.
\<close>

definition attempt_timeout :: "nat \<Rightarrow> world \<Rightarrow> int" where
  "attempt_timeout attempt w =
     (if shouldUseWakeUpTimeout (clock w) (detector w) then WAKE_UP_TIMEOUT
      else if attempt = 1 then NORMAL_TIMEOUT else RETRY_TIMEOUT)"

definition backoff_delay :: "nat \<Rightarrow> int" where
  "backoff_delay attempt = (1000 * int attempt * 3 ^ (attempt - 1)) div 2 ^ (attempt - 1)"

definition exhausted :: "string \<Rightarrow> js_error \<Rightarrow> js_error" where
  "exhausted ctx lastError =
     Error (ctx @ '' failed after 3 attempts. Last error: '' @ message lastError)"

function retry_from ::
  "(int \<Rightarrow> world \<Rightarrow> (js_error + 'a) \<times> world) \<Rightarrow> string \<Rightarrow> nat \<Rightarrow> js_error option \<Rightarrow> world
     \<Rightarrow> (js_error + 'a) \<times> world \<times> nat" where
  "retry_from fn ctx attempt lastError w =
     (if attempt \<le> MAX_RETRIES then
        (case fn (attempt_timeout attempt w) w of
           (Inr result, w1) \<Rightarrow>
             (Inr result, w1\<lparr>detector := markSuccess (clock w1) (detector w1)\<rparr>, 1)
         | (Inl error, w1) \<Rightarrow>
             (let w2 = w1\<lparr>detector := markFailure error (detector w1)\<rparr>
              in if attempt = MAX_RETRIES then (Inl (exhausted ctx error), w2, 1)
                 else (let w3 = w2\<lparr>clock := clock w2 + backoff_delay attempt\<rparr>;
                           (res, w4, n) = retry_from fn ctx (attempt + 1) (Some error) w3
                       in (res, w4, n + 1))))
      else
        (case lastError of
           Some e \<Rightarrow> (Inl (exhausted ctx e), w, 0)
         | None \<Rightarrow> (Inl TypeError, w, 0)))"
  by pat_completeness auto
termination
  by (relation "measure (\<lambda>(fn, ctx, attempt, lastError, w). Suc MAX_RETRIES - attempt)") auto

declare retry_from.simps [simp del]

definition retryWithRenderOptimization ::
  "(int \<Rightarrow> world \<Rightarrow> (js_error + 'a) \<times> world) \<Rightarrow> string \<Rightarrow> world \<Rightarrow> (js_error + 'a) \<times> world" where
  "retryWithRenderOptimization fn ctx w =
     (case retry_from fn ctx 1 None w of (res, w', n) \<Rightarrow> (res, w'))"


text \<open>
  A device at time \<open>t\<close> whose detector was constructed at time 0 and which has not sent any
  request yet.
\<close>

definition device :: "int \<Rightarrow> bool \<Rightarrow> async_storage \<Rightarrow> (int \<times> (js_error + jsval)) list \<Rightarrow> world" where
  "device t connected stored script =
     \<lparr>clock = t, storage = stored, online = connected, detector = new_detector 0,
      server = script, requests = []\<rparr>"

section \<open>Cache and exercise data access (exerciseApi module)\<close>

subsection \<open>Cache keys and cache functions\<close>

definition ALL_EXERCISES :: string where "ALL_EXERCISES = ''cached_exercises_all''"
definition EXERCISES_BY_MUSCLE :: string where "EXERCISES_BY_MUSCLE = ''cached_exercises_muscle_''"
definition EXERCISES_BY_EQUIPMENT :: string where "EXERCISES_BY_EQUIPMENT = ''cached_exercises_equipment_''"
definition MUSCLES_LIST :: string where "MUSCLES_LIST = ''cached_muscles''"
definition EQUIPMENT_LIST :: string where "EQUIPMENT_LIST = ''cached_equipment''"
definition SEARCH_RESULTS :: string where "SEARCH_RESULTS = ''cached_search_''"

text \<open>
  \<open>saveToCache(key, data)\<close> stores the text of \<open>{data, timestamp: Date.now()}\<close>.
\<close>

definition saveToCache :: "string \<Rightarrow> jsval \<Rightarrow> world \<Rightarrow> world" where
  "saveToCache k data w =
     w\<lparr>storage := (storage w)(k \<mapsto> Json (JObj [(''data'', data), (''timestamp'', JNum (clock w))]))\<rparr>"

text \<open>
  The operand \<open>timestamp\<close> of \<open>Date.now() - timestamp\<close> as a number; \<open>None\<close> is \<open>NaN\<close>.
  \<open>saveToCache\<close> only writes numbers; of the other values \<open>undefined\<close>, \<open>null\<close> and the
  booleans are converted as JavaScript does, and every remaining value is read as \<open>NaN\<close>.
  JavaScript reads some of those as numbers (the strings \<open>''\<close> and \<open>'0'\<close> and the array
  \<open>[]\<close> as 0), so an entry whose timestamp is a string, an array or an object is outside
  what this function describes.
\<close>

fun to_number :: "jsval option \<Rightarrow> int option" where
  "to_number None = None"
| "to_number (Some (JNum n)) = Some n"
| "to_number (Some JNull) = Some 0"
| "to_number (Some (JBool b)) = Some (if b then 1 else 0)"
| "to_number (Some v) = None"

text \<open>
  \<open>getFromCache(key, maxAge = 3600000)\<close>. Every exception inside the \<open>try\<close> block (the
  \<open>SyntaxError\<close> of \<open>JSON.parse\<close>, the \<open>TypeError\<close> of destructuring \<open>null\<close>) ends in
  \<open>return null\<close>. A comparison with \<open>NaN\<close> is false, so an entry without a numeric timestamp
  is never evicted. A stored object without a \<open>data\<close> property makes the source return
  \<open>undefined\<close>, which is returned as \<open>JNull\<close> here: every caller only tests the result for
  truthiness.
\<close>

definition getFromCache :: "string \<Rightarrow> int \<Rightarrow> world \<Rightarrow> jsval \<times> world" where
  "getFromCache k maxAge w =
     (case storage w k of
        None \<Rightarrow> (JNull, w)
      | Some cached \<Rightarrow>
          if \<not> text_truthy cached then (JNull, w)
          else (case JSON_parse cached of
                  None \<Rightarrow> (JNull, w)
                | Some JNull \<Rightarrow> (JNull, w)
                | Some parsed \<Rightarrow>
                    (let data = get_prop ''data'' parsed;
                         timestamp = get_prop ''timestamp'' parsed;
                         expired = (case to_number timestamp of
                                      None \<Rightarrow> False
                                    | Some ts \<Rightarrow> clock w - ts > maxAge)
                     in if expired then (JNull, w\<lparr>storage := (storage w)(k := None)\<rparr>)
                        else (case data of None \<Rightarrow> JNull | Some d \<Rightarrow> d, w))))"

subsection \<open>The HTTP client with its interceptors\<close>

text \<open>
  \<open>RequestOptimizer.compressParams\<close> on string parameters: a value longer than 100
  characters is cut to its first 100.
\<close>

definition compressParams :: "(string \<times> string) list \<Rightarrow> (string \<times> string) list" where
  "compressParams params =
     map (\<lambda>(k, v). (k, if length v > 100 then take 100 v else v)) params"

fun send_request :: "request \<Rightarrow> request" where
  "send_request (Get_exercises params) = Get_exercises (compressParams params)"
| "send_request (Get_exercise i) = Get_exercise i"

text \<open>What axios reports when no answer arrives at all.\<close>

definition network_error :: js_error where
  "network_error = \<lparr>message = ''Network Error'', code = Some ''ERR_NETWORK'', http_status = None\<rparr>"

text \<open>
  \<open>api.get(url, {params})\<close>, returning \<open>response.data\<close>. The request interceptor only sets
  the timeout of the request, which the scripted server does not read. The request is
  recorded, the next scripted answer is consumed and its duration passes. The response
  interceptor marks the outcome in the detector and, for a failure, replaces the error by a
  user-facing one in the order of the source.
\<close>

definition api_get :: "request \<Rightarrow> world \<Rightarrow> (js_error + jsval) \<times> world" where
  "api_get req w =
     (let w1 = w\<lparr>requests := requests w @ [send_request req]\<rparr>;
          (duration, outcome, rest) =
             (case server w1 of
                [] \<Rightarrow> (0, Inl network_error, [])
              | (d, out) # later \<Rightarrow> (d, out, later));
          w2 = w1\<lparr>clock := clock w1 + duration, server := rest\<rparr>
      in case outcome of
           Inr data \<Rightarrow> (Inr data, w2\<lparr>detector := markSuccess (clock w2) (detector w2)\<rparr>)
         | Inl error \<Rightarrow>
             (let w3 = w2\<lparr>detector := markFailure error (detector w2)\<rparr>
              in if \<not> online w3 then
                   (Inl (Error (''Sin conexi'' @ [CHR 0xF3] @ ''n a internet. Usando datos guardados localmente.'')), w3)
                 else if code error = Some ''ECONNABORTED'' then
                   (Inl (Error (''La API est'' @ [CHR 0xE1] @ '' tardando en responder. Puede estar inici''
                                @ [CHR 0xE1] @ ''ndose (Render free tier). Intenta nuevamente.'')), w3)
                 else if (case http_status error of None \<Rightarrow> False | Some st \<Rightarrow> st \<ge> 500) then
                   (Inl (Error (''Error del servidor. Intenta m'' @ [CHR 0xE1] @ ''s tarde.'')), w3)
                 else if http_status error = Some 404 then
                   (Inl (Error ''Recurso no encontrado.''), w3)
                 else (Inl error, w3)))"

subsection \<open>Normalising the records of the API\<close>

text \<open>\<open>x || d\<close> for a property value \<open>x\<close> that may be \<open>undefined\<close>.\<close>

definition or_else :: "jsval option \<Rightarrow> jsval \<Rightarrow> jsval" where
  "or_else x d = (case x of None \<Rightarrow> d | Some v \<Rightarrow> if truthy v then v else d)"

text \<open>\<open>mapExerciseData(exercise)\<close>; reading \<open>exercise.id\<close> throws when the record is \<open>null\<close>.\<close>

definition mapExerciseData :: "jsval \<Rightarrow> js_error + jsval" where
  "mapExerciseData exercise =
     (if exercise = JNull then Inl TypeError
      else Inr (JObj (obj_of
        [(''id'', get_prop ''id'' exercise),
         (''name'', get_prop ''name'' exercise),
         (''muscle'', get_prop ''muscle'' exercise),
         (''equipment'', get_prop ''equipment'' exercise),
         (''difficulty'', get_prop ''difficulty'' exercise),
         (''instructions'', Some (or_else (get_prop ''instructions'' exercise) (JStr ''''))),
         (''primaryMuscles'',
            Some (case get_prop ''muscle'' exercise of
                    None \<Rightarrow> JArr []
                  | Some mu \<Rightarrow> if truthy mu then JArr [mu] else JArr [])),
         (''secondaryMuscles'', Some (JArr [])),
         (''category'', Some (or_else (get_prop ''muscle'' exercise) (JStr ''General''))),
         (''icon'', Some (JStr ''fitness-center'')),
         (''image'', Some JNull),
         (''bodyPart'', Some (or_else (get_prop ''muscle'' exercise) (JStr ''general''))),
         (''target'', Some (or_else (get_prop ''muscle'' exercise) (JStr ''general''))),
         (''level'', Some (or_else (get_prop ''difficulty'' exercise) (JStr ''Intermedio''))),
         (''originalData'', Some exercise)])))"

text \<open>\<open>xs.map(f)\<close> for a callback that may throw: the first exception ends the loop.\<close>

fun map_all :: "('a \<Rightarrow> js_error + 'b) \<Rightarrow> 'a list \<Rightarrow> js_error + 'b list" where
  "map_all f [] = Inr []"
| "map_all f (x # xs) =
     (case f x of
        Inl e \<Rightarrow> Inl e
      | Inr y \<Rightarrow> (case map_all f xs of Inl e \<Rightarrow> Inl e | Inr ys \<Rightarrow> Inr (y # ys)))"

text \<open>\<open>response.data.map(mapExerciseData)\<close>; a body that is not an array has no \<open>map\<close>.\<close>

definition map_response :: "jsval \<Rightarrow> js_error + jsval" where
  "map_response data =
     (case data of
        JArr xs \<Rightarrow> (case map_all mapExerciseData xs of Inl e \<Rightarrow> Inl e | Inr ys \<Rightarrow> Inr (JArr ys))
      | _ \<Rightarrow> Inl TypeError)"

subsection \<open>The query functions\<close>

text \<open>
  A query returns its value or the error it throws, the environment after the call, and the
  background work it has started without awaiting it. The only such work in the module is
  the refresh of the cached catalog that \<open>getAllExercises\<close> hands to
  \<open>updateCacheInBackground\<close>.
\<close>

datatype background = Refresh_all_exercises

type_synonym 'a query_result = "(js_error + 'a) \<times> world \<times> background list"

text \<open>\<open>retryWithBackoff(fn, retries = 3)\<close> of this module ignores \<open>retries\<close>.\<close>

definition retryWithBackoff ::
  "(int \<Rightarrow> world \<Rightarrow> (js_error + 'a) \<times> world) \<Rightarrow> world \<Rightarrow> (js_error + 'a) \<times> world" where
  "retryWithBackoff fn w = retryWithRenderOptimization fn ''Legacy API call'' w"

text \<open>
  \<open>updateCacheInBackground(cacheKey, fetchFunction)\<close>: the fresh data is cached when the
  fetch succeeds, and a failure is only logged.
\<close>

definition updateCacheInBackground ::
  "string \<Rightarrow> (world \<Rightarrow> (js_error + jsval) \<times> world) \<Rightarrow> world \<Rightarrow> world" where
  "updateCacheInBackground cacheKey fetchFunction w =
     (case fetchFunction w of
        (Inr freshData, w1) \<Rightarrow> saveToCache cacheKey freshData w1
      | (Inl error, w1) \<Rightarrow> w1)"

text \<open>
  The fetch function that \<open>getAllExercises\<close> passes to the background update: the request is
  retried, the mapping of the answer is outside the retry.
\<close>

definition fetch_all_exercises :: "world \<Rightarrow> (js_error + jsval) \<times> world" where
  "fetch_all_exercises w =
     (case retryWithBackoff (\<lambda>timeout w'. api_get (Get_exercises []) w') w of
        (Inr data, w1) \<Rightarrow> (map_response data, w1)
      | (Inl error, w1) \<Rightarrow> (Inl error, w1))"

fun run_background :: "background \<Rightarrow> world \<Rightarrow> world" where
  "run_background Refresh_all_exercises w =
     updateCacheInBackground ALL_EXERCISES fetch_all_exercises w"

definition getAllExercises :: "world \<Rightarrow> jsval query_result" where
  "getAllExercises w =
     (let (cached, w1) = getFromCache ALL_EXERCISES 3600000 w;
          isOnline = online w1
      in if \<not> isOnline then
           (if truthy cached then (Inr cached, w1, [])
            else (Inl (Error (''Sin conexi'' @ [CHR 0xF3]
                              @ ''n y no hay ejercicios guardados localmente'')), w1, []))
         else if truthy cached then (Inr cached, w1, [Refresh_all_exercises])
         else (case retryWithBackoff
                      (\<lambda>timeout w'. case api_get (Get_exercises []) w' of
                                       (Inr data, w'') \<Rightarrow> (map_response data, w'')
                                     | (Inl error, w'') \<Rightarrow> (Inl error, w'')) w1 of
                 (Inr exercises, w2) \<Rightarrow> (Inr exercises, saveToCache ALL_EXERCISES exercises w2, [])
               | (Inl error, w2) \<Rightarrow>
                   (Inl (Error (''Error al cargar ejercicios: '' @ message error)), w2, [])))"

text \<open>
  \<open>getExercisesByMuscle\<close> and \<open>getExercisesByEquipment\<close> differ in the cache key prefix,
  the query parameter and the message; their common body is \<open>exercises_by\<close>.
\<close>

definition exercises_by :: "string \<Rightarrow> string \<Rightarrow> string \<Rightarrow> string \<Rightarrow> world \<Rightarrow> jsval query_result" where
  "exercises_by prefix param failure v w =
     (let cacheKey = prefix @ v;
          (cached, w1) = getFromCache cacheKey 3600000 w
      in if truthy cached then (Inr cached, w1, [])
         else (case api_get (Get_exercises [(param, v)]) w1 of
                 (Inl error, w2) \<Rightarrow> (Inl (Error (failure @ message error)), w2, [])
               | (Inr data, w2) \<Rightarrow>
                   (case map_response data of
                      Inl error \<Rightarrow> (Inl (Error (failure @ message error)), w2, [])
                    | Inr exercises \<Rightarrow> (Inr exercises, saveToCache cacheKey exercises w2, []))))"

definition getExercisesByMuscle :: "string \<Rightarrow> world \<Rightarrow> jsval query_result" where
  "getExercisesByMuscle muscle w =
     exercises_by EXERCISES_BY_MUSCLE ''muscle''
       (''Error al cargar ejercicios por m'' @ [CHR 0xFA] @ ''sculo: '') muscle w"

definition getExercisesByEquipment :: "string \<Rightarrow> world \<Rightarrow> jsval query_result" where
  "getExercisesByEquipment equipment w =
     exercises_by EXERCISES_BY_EQUIPMENT ''equipment''
       ''Error al cargar ejercicios por equipamiento: '' equipment w"

text \<open>
  The filter of \<open>searchExercises\<close>. \<open>exercise.name.toLowerCase()\<close> throws unless the property
  is a string; the four tests are joined by \<open>||\<close>, so a later property is only read when the
  earlier ones did not match.
\<close>

definition field_matches :: "string \<Rightarrow> string \<Rightarrow> jsval \<Rightarrow> js_error + bool" where
  "field_matches searchTerm field exercise =
     (case get_prop field exercise of
        Some (JStr s) \<Rightarrow> Inr (str_includes (toLowerCase s) searchTerm)
      | _ \<Rightarrow> Inl TypeError)"

fun first_match :: "string \<Rightarrow> string list \<Rightarrow> jsval \<Rightarrow> js_error + bool" where
  "first_match searchTerm [] exercise = Inr False"
| "first_match searchTerm (field # others) exercise =
     (case field_matches searchTerm field exercise of
        Inl e \<Rightarrow> Inl e
      | Inr True \<Rightarrow> Inr True
      | Inr False \<Rightarrow> first_match searchTerm others exercise)"

definition exercise_matches :: "string \<Rightarrow> jsval \<Rightarrow> js_error + bool" where
  "exercise_matches searchTerm exercise =
     first_match searchTerm [''name'', ''muscle'', ''equipment'', ''difficulty''] exercise"

fun filter_all :: "('a \<Rightarrow> js_error + bool) \<Rightarrow> 'a list \<Rightarrow> js_error + 'a list" where
  "filter_all p [] = Inr []"
| "filter_all p (x # xs) =
     (case p x of
        Inl e \<Rightarrow> Inl e
      | Inr keep \<Rightarrow>
          (case filter_all p xs of
             Inl e \<Rightarrow> Inl e
           | Inr ys \<Rightarrow> Inr (if keep then x # ys else ys)))"

definition filter_exercises :: "string \<Rightarrow> jsval \<Rightarrow> js_error + jsval" where
  "filter_exercises searchTerm allExercises =
     (case allExercises of
        JArr xs \<Rightarrow> (case filter_all (exercise_matches searchTerm) xs of
                      Inl e \<Rightarrow> Inl e
                    | Inr ys \<Rightarrow> Inr (JArr ys))
      | _ \<Rightarrow> Inl TypeError)"

definition searchExercises :: "string \<Rightarrow> world \<Rightarrow> jsval query_result" where
  "searchExercises query w =
     (let failure = ''Error al buscar ejercicios: '';
          cacheKey = SEARCH_RESULTS @ toLowerCase query;
          (cached, w1) = getFromCache cacheKey 1800000 w
      in if truthy cached then (Inr cached, w1, [])
         else (case getAllExercises w1 of
                 (Inl error, w2, bg) \<Rightarrow> (Inl (Error (failure @ message error)), w2, bg)
               | (Inr allExercises, w2, bg) \<Rightarrow>
                   (case filter_exercises (toLowerCase query) allExercises of
                      Inl error \<Rightarrow> (Inl (Error (failure @ message error)), w2, bg)
                    | Inr filteredExercises \<Rightarrow>
                        (Inr filteredExercises, saveToCache cacheKey filteredExercises w2, bg))))"

text \<open>
  \<open>parseInt(id)\<close> for a string: leading white space, an optional sign, then the longest
  run of digits, hexadecimal after the prefix \<open>0x\<close>; \<open>None\<close> is \<open>NaN\<close>. The result is
  the integer the digits write; JavaScript rounds it to a double, which is a different
  number only beyond \<open>2 ^ 53\<close>.
\<close>

definition is_space :: "char \<Rightarrow> bool" where
  "is_space c = (c \<in> set [CHR '' '', CHR 0x09, CHR 0x0A, CHR 0x0B, CHR 0x0C, CHR 0x0D, CHR 0xA0])"

definition digit_of :: "nat \<Rightarrow> char \<Rightarrow> nat option" where
  "digit_of radix c =
     (let n = (of_char c :: nat);
          d = (if 48 \<le> n \<and> n \<le> 57 then Some (n - 48)
               else if 97 \<le> n \<and> n \<le> 122 then Some (n - 87)
               else if 65 \<le> n \<and> n \<le> 90 then Some (n - 55)
               else None)
      in case d of None \<Rightarrow> None | Some x \<Rightarrow> if x < radix then Some x else None)"

definition parse_digits :: "nat \<Rightarrow> string \<Rightarrow> int option" where
  "parse_digits radix s =
     (let ds = takeWhile (\<lambda>c. digit_of radix c \<noteq> None) s
      in if ds = [] then None
         else Some (foldl (\<lambda>acc c. acc * int radix + int (the (digit_of radix c))) 0 ds))"

definition parseInt :: "string \<Rightarrow> int option" where
  "parseInt s =
     (let s1 = dropWhile is_space s;
          (sign, s2) = (case s1 of
                          c # cs \<Rightarrow> if c = CHR ''-'' then (- 1, cs)
                                    else if c = CHR ''+'' then (1, cs) else (1, s1)
                        | [] \<Rightarrow> (1, s1));
          (radix, s3) = (if take 2 s2 = ''0x'' \<or> take 2 s2 = ''0X'' then (16, drop 2 s2) else (10, s2))
      in map_option (\<lambda>n. sign * n) (parse_digits radix s3))"

text \<open>
  \<open>xs.find(ex => ex.id === parseInt(id))\<close>: \<open>Inr None\<close> is \<open>undefined\<close>; reading \<open>ex.id\<close>
  of a \<open>null\<close> element throws; \<open>NaN\<close> is equal to nothing.
\<close>

fun find_by_id :: "int option \<Rightarrow> jsval list \<Rightarrow> js_error + jsval option" where
  "find_by_id n [] = Inr None"
| "find_by_id n (ex # rest) =
     (if ex = JNull then Inl TypeError
      else if n \<noteq> None \<and> get_prop ''id'' ex = map_option JNum n then Inr (Some ex)
      else find_by_id n rest)"

text \<open>
  The \<open>catch\<close> block of \<open>getExerciseById\<close>: look the record up in the full catalog, and
  throw the final error, which quotes the first one, when that does not deliver it.
\<close>

definition by_id_fallback :: "string \<Rightarrow> js_error \<Rightarrow> world \<Rightarrow> jsval query_result" where
  "by_id_fallback i error w =
     (let final = Error (''No se pudo obtener el ejercicio con ID '' @ i @ '': '' @ message error)
      in case getAllExercises w of
           (Inl searchError, w1, bg) \<Rightarrow> (Inl final, w1, bg)
         | (Inr allExercises, w1, bg) \<Rightarrow>
             (case allExercises of
                JArr xs \<Rightarrow> (case find_by_id (parseInt i) xs of
                              Inr (Some exercise) \<Rightarrow> (Inr exercise, w1, bg)
                            | _ \<Rightarrow> (Inl final, w1, bg))
              | _ \<Rightarrow> (Inl final, w1, bg)))"

definition getExerciseById :: "string \<Rightarrow> world \<Rightarrow> jsval query_result" where
  "getExerciseById i w =
     (let (cachedData, w1) = getFromCache ALL_EXERCISES 3600000 w;
          found = (case cachedData of
                     JArr xs \<Rightarrow> find_by_id (parseInt i) xs
                   | _ \<Rightarrow> Inr None)
      in case found of
           Inr (Some exercise) \<Rightarrow> (Inr exercise, w1, [])
         | Inl error \<Rightarrow> by_id_fallback i error w1
         | Inr None \<Rightarrow>
             (case api_get (Get_exercise i) w1 of
                (Inr data, w2) \<Rightarrow>
                  if truthy data then (Inr data, w2, [])
                  else by_id_fallback i (Error ''Ejercicio no encontrado'') w2
              | (Inl error, w2) \<Rightarrow> by_id_fallback i error w2))"

section \<open>Numbers and dates as strings\<close>

text \<open>\<open>n.toString()\<close> for an integer: its decimal digits.\<close>

definition digit_char :: "int \<Rightarrow> char" where
  "digit_char n = char_of (48 + n mod 10)"

function show_digits :: "int \<Rightarrow> string" where
  "show_digits n = (if n < 10 then [digit_char n] else show_digits (n div 10) @ [digit_char n])"
  by pat_completeness auto
termination
  by (relation "measure nat") auto

declare show_digits.simps [simp del]

definition show_int :: "int \<Rightarrow> string" where
  "show_int n = (if n < 0 then CHR ''-'' # show_digits (- n) else show_digits n)"

text \<open>The last \<open>k\<close> decimal digits of \<open>n\<close>, with leading zeros.\<close>

fun pad_num :: "nat \<Rightarrow> int \<Rightarrow> string" where
  "pad_num 0 n = []"
| "pad_num (Suc k) n = pad_num k (n div 10) @ [digit_char n]"

text \<open>
  The proleptic Gregorian calendar, as \<open>Date\<close> uses it: the civil date of a day number
  counted from 1970-01-01.
\<close>

definition civil_from_days :: "int \<Rightarrow> int \<times> int \<times> int" where
  "civil_from_days days =
     (let z = days + 719468;
          era = z div 146097;
          doe = z - era * 146097;
          yoe = (doe - doe div 1460 + doe div 36524 - doe div 146096) div 365;
          doy = doe - (365 * yoe + yoe div 4 - yoe div 100);
          mp = (5 * doy + 2) div 153;
          d = doy - (153 * mp + 2) div 5 + 1;
          m = (if mp < 10 then mp + 3 else mp - 9);
          y = yoe + era * 400 + (if m \<le> 2 then 1 else 0)
      in (y, m, d))"

text \<open>
  \<open>new Date(t).toISOString()\<close> for an epoch time \<open>t\<close> in milliseconds:
  \<open>YYYY-MM-DDTHH:mm:ss.sssZ\<close>, and the expanded form with a sign and six digits for a year
  outside 0 to 9999.
\<close>

definition toISOString :: "int \<Rightarrow> string" where
  "toISOString t =
     (let days = t div 86400000;
          ms = t mod 86400000;
          (y, m, d) = civil_from_days days;
          year = (if 0 \<le> y \<and> y \<le> 9999 then pad_num 4 y
                  else (if y < 0 then ''-'' else ''+'') @ pad_num 6 \<bar>y\<bar>)
      in year @ ''-'' @ pad_num 2 m @ ''-'' @ pad_num 2 d @ ''T''
         @ pad_num 2 (ms div 3600000) @ '':'' @ pad_num 2 (ms div 60000 mod 60) @ '':''
         @ pad_num 2 (ms div 1000 mod 60) @ ''.'' @ pad_num 3 (ms mod 1000) @ ''Z'')"

text \<open>
  \<open>new Date(v).getTime()\<close>. A number is an instant when it lies within 8.64e15
  milliseconds of the epoch and \<open>NaN\<close> (\<open>None\<close>) beyond; \<open>true\<close> and \<open>false\<close> are the
  numbers 1 and 0 and \<open>null\<close> is 0. Every other value is converted to a string and parsed
  by the engine's \<open>Date.parse\<close>, whose reading of a text is the engine's own: it is the
  parameter \<open>parsed\<close>, which gives the instant read from such a value, or \<open>None\<close> for
  \<open>NaN\<close>.
\<close>

definition getTime :: "(jsval \<Rightarrow> int option) \<Rightarrow> jsval \<Rightarrow> int option" where
  "getTime parsed v =
     (case v of
        JNum n \<Rightarrow> if \<bar>n\<bar> \<le> 8640000000000000 then Some n else None
      | JBool b \<Rightarrow> Some (if b then 1 else 0)
      | JNull \<Rightarrow> Some 0
      | _ \<Rightarrow> parsed v)"

text \<open>The comparison \<open>a > b\<close> of two numbers that may be \<open>NaN\<close>.\<close>

definition num_gt :: "int option \<Rightarrow> int option \<Rightarrow> bool" where
  "num_gt a b = (case (a, b) of (Some x, Some y) \<Rightarrow> x > y | _ \<Rightarrow> False)"

section \<open>Preference sync (userPreferencesService)\<close>

text \<open>
  The preference service also talks to the remote document store. \<open>firestore\<close> holds the
  documents of the collection \<open>userPreferences\<close> by user id; \<open>outages\<close> scripts the next
  calls of the store (\<open>None\<close>: the call goes through, \<open>Some e\<close>: it throws \<open>e\<close>), and every
  call after the script goes through; \<open>writes\<close> records each write, local or remote, in
  the order in which it happened.
\<close>

datatype write_event = Local_write string | Remote_write string

record cloud = world +
  firestore :: "string \<rightharpoonup> jsval"
  outages :: "js_error option list"
  writes :: "write_event list"

definition COLLECTION_NAME :: string where
  "COLLECTION_NAME = ''userPreferences''"

text \<open>The storage key \<open>`userPreferences_${userId}`\<close>.\<close>

definition preferences_key :: "string \<Rightarrow> string" where
  "preferences_key userId = ''userPreferences_'' @ userId"

text \<open>\<open>AsyncStorage.setItem(key, JSON.stringify(value))\<close>.\<close>

definition setItem :: "string \<Rightarrow> jsval \<Rightarrow> cloud \<Rightarrow> cloud" where
  "setItem k v w = w\<lparr>storage := (storage w)(k \<mapsto> Json v), writes := writes w @ [Local_write k]\<rparr>"

text \<open>The next call of the document store consumes one entry of the script.\<close>

definition store_call :: "cloud \<Rightarrow> js_error option \<times> cloud" where
  "store_call w = (case outages w of
        [] \<Rightarrow> (None, w)
      | outcome # later \<Rightarrow> (outcome, w\<lparr>outages := later\<rparr>))"

text \<open>
  \<open>getDoc(doc(db, COLLECTION_NAME, userId))\<close>, followed by
  \<open>docSnap.exists() ? docSnap.data() : null\<close> at both call sites: \<open>None\<close> is a missing
  document.
\<close>

definition getDoc :: "string \<Rightarrow> cloud \<Rightarrow> (js_error + jsval option) \<times> cloud" where
  "getDoc userId w =
     (case store_call w of
        (Some e, w1) \<Rightarrow> (Inl e, w1)
      | (None, w1) \<Rightarrow> (Inr (firestore w1 userId), w1))"

text \<open>
  \<open>setDoc(doc(db, COLLECTION_NAME, userId), data)\<close> replaces the whole document. The
  store refuses data that is not an object before it sends anything.
\<close>

definition invalid_data :: js_error where
  "invalid_data = \<lparr>message = ''Function setDoc() called with invalid data.'',
                    code = Some ''invalid-argument'', http_status = None\<rparr>"

definition setDoc :: "string \<Rightarrow> jsval \<Rightarrow> cloud \<Rightarrow> (js_error + unit) \<times> cloud" where
  "setDoc userId data w =
     (case data of
        JObj kvs \<Rightarrow>
          (case store_call w of
             (Some e, w1) \<Rightarrow> (Inl e, w1)
           | (None, w1) \<Rightarrow>
               (Inr (), w1\<lparr>firestore := (firestore w1)(userId \<mapsto> data),
                           writes := writes w1 @ [Remote_write userId]\<rparr>))
      | _ \<Rightarrow> (Inl invalid_data, w))"




text \<open>
  The own properties that an object spread copies: those of an object; the elements of an
  array and the characters of a string under their indices; nothing for any other value.
\<close>

fun spread_props :: "jsval \<Rightarrow> (string \<times> jsval) list" where
  "spread_props (JObj kvs) = kvs"
| "spread_props (JArr xs) = zip (map (\<lambda>n. show_int (int n)) [0..<length xs]) xs"
| "spread_props (JStr s) = zip (map (\<lambda>n. show_int (int n)) [0..<length s]) (map (\<lambda>c. JStr [c]) s)"
| "spread_props v = []"






text \<open>
  \<open>syncPendingData(userId)\<close>. Every exception inside the outer \<open>try\<close> ends in
  \<open>return false\<close>: the text that does not parse, the property read on a local value
  \<open>null\<close>, the failing \<open>setDoc\<close>. A failing \<open>getDoc\<close> is caught by the inner \<open>try\<close> and
  leaves \<open>firestorePreferences\<close> at \<open>null\<close>. The two timestamps are
  \<open>new Date(x.lastUpdated || 0).getTime()\<close>; the first parameter is the engine's reading of
  dates that are not numbers (see \<open>getTime\<close>).
\<close>

definition syncPendingData :: "(jsval \<Rightarrow> int option) \<Rightarrow> string \<Rightarrow> cloud \<Rightarrow> bool \<times> cloud" where
  "syncPendingData parsed userId w =
     (if \<not> online w then (False, w)
      else (case storage w (preferences_key userId) of
              None \<Rightarrow> (True, w)
            | Some localData \<Rightarrow>
                if \<not> text_truthy localData then (True, w)
                else (case JSON_parse localData of
                        None \<Rightarrow> (False, w)
                      | Some localPreferences \<Rightarrow>
                          (let (fetched, w1) = getDoc userId w;
                               firestorePreferences =
                                 (case fetched of Inr (Some d) \<Rightarrow> Some d | _ \<Rightarrow> None)
                           in if localPreferences = JNull then (False, w1)
                              else
                                (let localTimestamp =
                                       getTime parsed
                                         (or_else (get_prop ''lastUpdated'' localPreferences) (JNum 0));
                                     firestoreTimestamp =
                                       getTime parsed
                                         (or_else (case firestorePreferences of
                                                     None \<Rightarrow> None
                                                   | Some d \<Rightarrow> get_prop ''lastUpdated'' d)
                                                  (JNum 0))
                                 in if num_gt localTimestamp firestoreTimestamp then
                                      (case setDoc userId localPreferences w1 of
                                         (Inl error, w2) \<Rightarrow> (False, w2)
                                       | (Inr u, w2) \<Rightarrow> (True, w2))
                                    else
                                      (case firestorePreferences of
                                         Some d \<Rightarrow>
                                           if num_gt firestoreTimestamp localTimestamp \<and> truthy d
                                           then (True, setItem (preferences_key userId) d w1)
                                           else (True, w1)
                                       | None \<Rightarrow> (True, w1)))))))"

section \<open>Routine migration (routineMigration: class RoutineMigration)\<close>

definition MIGRATION_KEY :: string where
  "MIGRATION_KEY = ''routine_migration_completed_v1''"

definition migration_flag :: "string \<Rightarrow> string" where
  "migration_flag userId = MIGRATION_KEY @ ''_'' @ userId"

definition oldKey :: string where
  "oldKey = ''user_routines_default_user''"

definition newKey :: "string \<Rightarrow> string" where
  "newKey userId = ''user_routines_'' @ userId"

text \<open>A \<open>SyntaxError\<close> of \<open>JSON.parse\<close>; as for \<open>TypeError\<close>, the message is the name.\<close>

definition SyntaxError :: js_error where
  "SyntaxError = Error ''SyntaxError''"

text \<open>\<open>isMigrationCompleted\<close>: the stored text is compared with \<open>'true'\<close>.\<close>

definition isMigrationCompleted :: "string \<Rightarrow> world \<Rightarrow> bool" where
  "isMigrationCompleted userId w = (storage w (migration_flag userId) = Some (Json (JBool True)))"

definition markMigrationCompleted :: "string \<Rightarrow> world \<Rightarrow> world" where
  "markMigrationCompleted userId w =
     w\<lparr>storage := (storage w)(migration_flag userId \<mapsto> Json (JBool True))\<rparr>"

text \<open>
  \<open>new Set(existingRoutines.map(r => r.name))\<close> and \<open>existingNames.has(routine.name)\<close>. The
  names are kept as a list of values that may be \<open>undefined\<close>. A set compares primitive
  values by value and arrays and objects by identity, and two values that come out of
  \<open>JSON.parse\<close> are never the same array or object.
\<close>

fun primitive :: "jsval \<Rightarrow> bool" where
  "primitive (JArr xs) = False"
| "primitive (JObj kvs) = False"
| "primitive v = True"

definition names_of :: "jsval \<Rightarrow> js_error + jsval option list" where
  "names_of existingRoutines =
     (case existingRoutines of
        JArr xs \<Rightarrow> map_all (\<lambda>r. if r = JNull then Inl TypeError else Inr (get_prop ''name'' r)) xs
      | _ \<Rightarrow> Inl TypeError)"

definition set_has :: "jsval option list \<Rightarrow> jsval option \<Rightarrow> bool" where
  "set_has names x =
     (case x of
        None \<Rightarrow> None \<in> set names
      | Some v \<Rightarrow> primitive v \<and> Some v \<in> set names)"

text \<open>
  What \<open>for (const routine of oldRoutines)\<close> iterates over: the elements of an array, the
  characters of a string; any other value is not iterable.
\<close>

definition elements_of :: "jsval \<Rightarrow> js_error + jsval list" where
  "elements_of oldRoutines =
     (case oldRoutines of
        JArr xs \<Rightarrow> Inr xs
      | JStr s \<Rightarrow> Inr (map (\<lambda>c. JStr [c]) s)
      | _ \<Rightarrow> Inl TypeError)"

text \<open>
  Setting a property to a value that may be \<open>undefined\<close>: the stored text has no property
  whose value is \<open>undefined\<close>, so the property is removed.
\<close>

definition put_prop :: "string \<Rightarrow> jsval option \<Rightarrow> (string \<times> jsval) list \<Rightarrow> (string \<times> jsval) list" where
  "put_prop k x kvs =
     (case x of
        None \<Rightarrow> filter (\<lambda>(k', v'). k' \<noteq> k) kvs
      | Some v \<Rightarrow> set_prop k v kvs)"

text \<open>
  The copy \<open>migratedRoutine\<close> of a legacy routine. Its id is
  \<open>Date.now().toString() + '_' + Math.random().toString(36).substr(2, 9)\<close>; the random
  part is the parameter \<open>suffix\<close>.
\<close>

definition migratedRoutine :: "int \<Rightarrow> string \<Rightarrow> jsval \<Rightarrow> jsval" where
  "migratedRoutine t suffix routine =
     JObj (put_prop ''updatedAt'' (Some (JStr (toISOString t)))
            (put_prop ''originalId'' (get_prop ''id'' routine)
              (put_prop ''migratedAt'' (Some (JStr (toISOString t)))
                (put_prop ''id'' (Some (JStr (show_int t @ ''_'' @ suffix)))
                  (spread_props routine)))))"

text \<open>
  The loop over the legacy routines. \<open>suffixes\<close> are the random parts that the next calls
  of \<open>Math.random\<close> will give (the empty string once the list is used up); the rest of
  the list is returned. Reading \<open>routine.name\<close> of a \<open>null\<close> element throws.
\<close>

fun migrate_all ::
  "int \<Rightarrow> jsval option list \<Rightarrow> jsval list \<Rightarrow> string list \<Rightarrow> js_error + (jsval list \<times> string list)" where
  "migrate_all t existingNames [] suffixes = Inr ([], suffixes)"
| "migrate_all t existingNames (routine # rest) suffixes =
     (if routine = JNull then Inl TypeError
      else if set_has existingNames (get_prop ''name'' routine)
      then migrate_all t existingNames rest suffixes
      else (case migrate_all t existingNames rest (tl suffixes) of
              Inl e \<Rightarrow> Inl e
            | Inr (routinesToMigrate, left) \<Rightarrow>
                Inr (migratedRoutine t (case suffixes of [] \<Rightarrow> [] | s # ss \<Rightarrow> s) routine
                       # routinesToMigrate, left)))"

text \<open>
  \<open>migrateUserRoutines(userId)\<close>. The result is \<open>undefined\<close> (\<open>Inr None\<close>) on the two early
  returns and the statistics object at the end; every exception is logged and thrown again.
\<close>

definition read_existing :: "string \<Rightarrow> world \<Rightarrow> js_error + jsval" where
  "read_existing k w =
     (case storage w k of
        None \<Rightarrow> Inr (JArr [])
      | Some existingData \<Rightarrow>
          if text_truthy existingData
          then (case JSON_parse existingData of None \<Rightarrow> Inl SyntaxError | Some v \<Rightarrow> Inr v)
          else Inr (JArr []))"

definition migrateUserRoutines ::
  "string \<Rightarrow> world \<Rightarrow> string list \<Rightarrow> (js_error + jsval option) \<times> world \<times> string list" where
  "migrateUserRoutines userId w suffixes =
     (if isMigrationCompleted userId w then (Inr None, w, suffixes)
      else (case storage w oldKey of
              None \<Rightarrow> (Inr None, markMigrationCompleted userId w, suffixes)
            | Some oldRoutinesData \<Rightarrow>
                if \<not> text_truthy oldRoutinesData
                then (Inr None, markMigrationCompleted userId w, suffixes)
                else (case JSON_parse oldRoutinesData of
                        None \<Rightarrow> (Inl SyntaxError, w, suffixes)
                      | Some oldRoutines \<Rightarrow>
                          (case read_existing (newKey userId) w of
                             Inl e \<Rightarrow> (Inl e, w, suffixes)
                           | Inr existingRoutines \<Rightarrow>
                               (case names_of existingRoutines of
                                  Inl e \<Rightarrow> (Inl e, w, suffixes)
                                | Inr existingNames \<Rightarrow>
                                    (case elements_of oldRoutines of
                                       Inl e \<Rightarrow> (Inl e, w, suffixes)
                                     | Inr olds \<Rightarrow>
                                         (case migrate_all (clock w) existingNames olds suffixes of
                                            Inl e \<Rightarrow> (Inl e, w, suffixes)
                                          | Inr (routinesToMigrate, left) \<Rightarrow>
                                              (let existing = (case existingRoutines of
                                                                 JArr xs \<Rightarrow> xs | _ \<Rightarrow> []);
                                                   w1 = (if routinesToMigrate \<noteq> []
                                                         then w\<lparr>storage := (storage w)
                                                                 (newKey userId \<mapsto>
                                                                    Json (JArr (existing @ routinesToMigrate)))\<rparr>
                                                         else w);
                                                   w2 = markMigrationCompleted userId w1
                                               in (Inr (Some (JObj
                                                     [(''migrated'', JNum (int (length routinesToMigrate))),
                                                      (''existing'', JNum (int (length existing))),
                                                      (''total'', JNum (int (length existing)
                                                                        + int (length routinesToMigrate)))])),
                                                   w2, left)))))))))"

text \<open>The routines stored for a user, as \<open>getUserRoutines\<close> reads them.\<close>

definition getUserRoutines :: "string \<Rightarrow> world \<Rightarrow> jsval" where
  "getUserRoutines userId w =
     (case storage w (newKey userId) of
        None \<Rightarrow> JArr []
      | Some routines \<Rightarrow>
          if text_truthy routines
          then (case JSON_parse routines of None \<Rightarrow> JArr [] | Some v \<Rightarrow> v)
          else JArr [])"

text \<open>The number of routines in a list whose name is the string \<open>s\<close>.\<close>

definition named :: "string \<Rightarrow> jsval list \<Rightarrow> nat" where
  "named s routines = length (filter (\<lambda>r. get_prop ''name'' r = Some (JStr s)) routines)"

section \<open>Properties of the rate limiter\<close>

lemma isAllowed_cooling:
  "m key = Some \<lparr>count = 3, resetTime = now + 180000, firstAttempt = now\<rparr> \<Longrightarrow>
   isAllowed now key 8 180000 m = (m, False)"
  by (simp add: isAllowed_def)

lemma rapid_calls_cooling:
  "m key = Some \<lparr>count = 3, resetTime = now + 180000, firstAttempt = now\<rparr> \<Longrightarrow>
   rapid_calls now key 8 180000 n m = (replicate n False, m)"
  by (induction n) (simp_all add: isAllowed_cooling)

lemma rapid_calls_first_three:
  assumes "m key = None"
  shows "rapid_calls now key 8 180000 (Suc (Suc (Suc k))) m =
           (True # True # True # replicate k False,
            m(key \<mapsto> \<lparr>count = 3, resetTime = now + 180000, firstAttempt = now\<rparr>))"
proof -
  let ?r = "\<lambda>c. \<lparr>count = c, resetTime = now + 180000, firstAttempt = now\<rparr>"
  have s1: "isAllowed now key 8 180000 m = (m(key \<mapsto> ?r 1), True)"
    using assms by (simp add: isAllowed_def)
  have s2: "isAllowed now key 8 180000 (m(key \<mapsto> ?r 1)) = (m(key \<mapsto> ?r 2), True)"
    by (simp add: isAllowed_def)
  have s3: "isAllowed now key 8 180000 (m(key \<mapsto> ?r 2)) = (m(key \<mapsto> ?r 3), True)"
    by (simp add: isAllowed_def)
  have rest: "rapid_calls now key 8 180000 k (m(key \<mapsto> ?r 3)) = (replicate k False, m(key \<mapsto> ?r 3))"
    by (rule rapid_calls_cooling) simp
  show ?thesis by (simp add: s1 s2 s3 rest)
qed

lemma isAllowed_live:
  assumes "m key = Some r" and "t \<le> resetTime r" and "0 < count r"
  shows "isAllowed t key 8 180000 m =
           (if (3 \<le> count r \<and> count r < 8 \<and> t - firstAttempt r < 30000) \<or> 8 \<le> count r
            then (m, False)
            else (m(key \<mapsto> r\<lparr>count := count r + 1\<rparr>), True))"
  using assms by (auto simp: isAllowed_def)

lemma rapid_calls_hard_block:
  "m key = Some \<lparr>count = 8, resetTime = R, firstAttempt = F\<rparr> \<Longrightarrow> t \<le> R \<Longrightarrow>
   rapid_calls t key 8 180000 k m = (replicate k False, m)"
  by (induction k) (simp_all add: isAllowed_def)

lemma rapid_calls_after_cooldown:
  assumes "m key = Some \<lparr>count = 3, resetTime = R, firstAttempt = F\<rparr>"
    and "F + 30000 \<le> t" and "t \<le> R"
  shows "fst (rapid_calls t key 8 180000 k m) = replicate (min k 5) True @ replicate (k - 5) False"
proof -
  let ?r = "\<lambda>c. \<lparr>count = c, resetTime = R, firstAttempt = F\<rparr>"
  have step: "\<And>c m'. m' key = Some (?r c) \<Longrightarrow> 3 \<le> c \<Longrightarrow> c < 8 \<Longrightarrow>
                isAllowed t key 8 180000 m' = (m'(key \<mapsto> ?r (c + 1)), True)"
    using assms(2,3) by (simp add: isAllowed_def)
  have s3: "isAllowed t key 8 180000 m = (m(key \<mapsto> ?r 4), True)"
    using step [of m 3] assms(1) by simp
  have s4: "isAllowed t key 8 180000 (m(key \<mapsto> ?r 4)) = (m(key \<mapsto> ?r 5), True)"
    using step [of "m(key \<mapsto> ?r 4)" 4] by simp
  have s5: "isAllowed t key 8 180000 (m(key \<mapsto> ?r 5)) = (m(key \<mapsto> ?r 6), True)"
    using step [of "m(key \<mapsto> ?r 5)" 5] by simp
  have s6: "isAllowed t key 8 180000 (m(key \<mapsto> ?r 6)) = (m(key \<mapsto> ?r 7), True)"
    using step [of "m(key \<mapsto> ?r 6)" 6] by simp
  have s7: "isAllowed t key 8 180000 (m(key \<mapsto> ?r 7)) = (m(key \<mapsto> ?r 8), True)"
    using step [of "m(key \<mapsto> ?r 7)" 7] by simp
  have blocked: "\<And>j. rapid_calls t key 8 180000 j (m(key \<mapsto> ?r 8)) = (replicate j False, m(key \<mapsto> ?r 8))"
    using assms(3) by (intro rapid_calls_hard_block [where R = R and F = F]) simp_all
  consider "k = 0" | "k = Suc 0" | "k = Suc (Suc 0)" | "k = Suc (Suc (Suc 0))"
    | "k = Suc (Suc (Suc (Suc 0)))" | j where "k = Suc (Suc (Suc (Suc (Suc j))))"
    by (metis not0_implies_Suc)
  then show ?thesis
  proof cases
    case 1 then show ?thesis by simp
  next
    case 2 then show ?thesis by (simp add: s3)
  next
    case 3 then show ?thesis by (simp add: s3 s4)
  next
    case 4 then show ?thesis by (simp add: s3 s4 s5)
  next
    case 5 then show ?thesis by (simp add: s3 s4 s5 s6)
  next
    case 6 then show ?thesis by (simp add: s3 s4 s5 s6 s7 blocked)
  qed
qed

text \<open>
  Claim C1, as the code has it. For a key without a record, \<open>n\<close> calls of
  \<open>isAllowed(key, 8, 180000)\<close> with no time elapsing between them: the first three calls
  are allowed and every later call is refused. From the third call on the stored record has
  \<open>count = 3\<close>, below the maximum of 8, \<open>firstAttempt\<close> at the first call and \<open>resetTime\<close>
  180 seconds after it, and \<open>getRemainingTime\<close> reports 30 seconds. The refusals come from
  the cooldown of 30 seconds measured from the first attempt: a call less than 30 seconds
  after the first attempt is refused, and from 30 seconds after the first attempt on, inside
  the window, calls are allowed at once again, five of them, until the count is 8; then
  every call is refused. In general, inside the window of a record, a call is refused
  exactly when the count is at least 3 and below 8 and less than 30 seconds have passed since
  \<open>firstAttempt\<close>, or when the count has reached 8; an allowed call adds one to the count and
  leaves \<open>firstAttempt\<close> and \<open>resetTime\<close> as they are. After \<open>resetTime\<close> the next call is
  allowed.
\<close>

theorem rapid_calls_fresh_key:
  assumes "m key = None"
  shows "fst (rapid_calls now key 8 180000 n m) = replicate (min n 3) True @ replicate (n - 3) False
       \<and> (3 \<le> n \<longrightarrow>
            snd (rapid_calls now key 8 180000 n m) key
              = Some \<lparr>count = 3, resetTime = now + 180000, firstAttempt = now\<rparr>
          \<and> getRemainingTime now key (snd (rapid_calls now key 8 180000 n m)) = 30000)
       \<and> (3 \<le> n \<and> now \<le> t \<and> t < now + 30000 \<longrightarrow>
            isAllowed t key 8 180000 (snd (rapid_calls now key 8 180000 n m))
              = (snd (rapid_calls now key 8 180000 n m), False))
       \<and> (3 \<le> n \<and> now + 30000 \<le> t \<and> t \<le> now + 180000 \<longrightarrow>
            fst (rapid_calls t key 8 180000 k (snd (rapid_calls now key 8 180000 n m)))
              = replicate (min k 5) True @ replicate (k - 5) False)
       \<and> (m' key = Some r \<and> t \<le> resetTime r \<and> 0 < count r \<longrightarrow>
            isAllowed t key 8 180000 m' =
              (if (3 \<le> count r \<and> count r < 8 \<and> t - firstAttempt r < 30000) \<or> 8 \<le> count r
               then (m', False)
               else (m'(key \<mapsto> r\<lparr>count := count r + 1\<rparr>), True)))
       \<and> (m' key = Some r \<and> resetTime r < t \<longrightarrow>
            isAllowed t key 8 180000 m'
              = (m'(key \<mapsto> \<lparr>count = 1, resetTime = t + 180000, firstAttempt = t\<rparr>), True))"
proof -
  let ?after = "snd (rapid_calls now key 8 180000 n m)"
  have live: "m' key = Some r \<and> t \<le> resetTime r \<and> 0 < count r \<longrightarrow>
            isAllowed t key 8 180000 m' =
              (if (3 \<le> count r \<and> count r < 8 \<and> t - firstAttempt r < 30000) \<or> 8 \<le> count r
               then (m', False)
               else (m'(key \<mapsto> r\<lparr>count := count r + 1\<rparr>), True))"
    using isAllowed_live [of m' key r t] by blast
  have reset: "m' key = Some r \<and> resetTime r < t \<longrightarrow>
            isAllowed t key 8 180000 m'
              = (m'(key \<mapsto> \<lparr>count = 1, resetTime = t + 180000, firstAttempt = t\<rparr>), True)"
    by (simp add: isAllowed_def)
  consider "n = 0" | "n = 1" | "n = 2" | j where "n = Suc (Suc (Suc j))"
    by (metis One_nat_def Suc_1 not0_implies_Suc)
  then have rapid: "fst (rapid_calls now key 8 180000 n m) = replicate (min n 3) True @ replicate (n - 3) False
       \<and> (3 \<le> n \<longrightarrow>
            ?after key = Some \<lparr>count = 3, resetTime = now + 180000, firstAttempt = now\<rparr>
          \<and> getRemainingTime now key ?after = 30000)"
  proof cases
    case 1 then show ?thesis by simp
  next
    case 2 then show ?thesis using assms by (simp add: isAllowed_def)
  next
    case 3
    then have "n = Suc (Suc 0)" by simp
    then show ?thesis using assms by (simp add: isAllowed_def)
  next
    case 4
    then show ?thesis
      using assms rapid_calls_first_three [where m=m and key=key and now=now and k=j]
      by (simp del: rapid_calls.simps add: getRemainingTime_def)
  qed
  then have stored: "3 \<le> n \<longrightarrow>
      ?after key = Some \<lparr>count = 3, resetTime = now + 180000, firstAttempt = now\<rparr>"
    by blast
  have early: "3 \<le> n \<and> now \<le> t \<and> t < now + 30000 \<longrightarrow>
            isAllowed t key 8 180000 ?after = (?after, False)"
    using stored by (auto simp: isAllowed_def)
  have later: "3 \<le> n \<and> now + 30000 \<le> t \<and> t \<le> now + 180000 \<longrightarrow>
            fst (rapid_calls t key 8 180000 k ?after)
              = replicate (min k 5) True @ replicate (k - 5) False"
    using stored rapid_calls_after_cooldown [of ?after key "now + 180000" now t k] by blast
  show ?thesis
    using rapid early later live reset by blast
qed

theorem rapid_calls_fresh_key_witness:
  "fst (rapid_calls 1000 ''login_a@b.com'' 8 180000 8 Map.empty)
     = [True, True, True, False, False, False, False, False]
   \<and> getRemainingTime 1000 ''login_a@b.com''
        (snd (rapid_calls 1000 ''login_a@b.com'' 8 180000 8 Map.empty)) = 30000
   \<and> \<not> snd (isAllowed 30999 ''login_a@b.com'' 8 180000
        (snd (rapid_calls 1000 ''login_a@b.com'' 8 180000 8 Map.empty)))
   \<and> fst (rapid_calls 31000 ''login_a@b.com'' 8 180000 7
        (snd (rapid_calls 1000 ''login_a@b.com'' 8 180000 8 Map.empty)))
       = [True, True, True, True, True, False, False]
   \<and> isAllowed 181000 ''login_a@b.com'' 8 180000
        [''login_a@b.com'' \<mapsto> \<lparr>count = 8, resetTime = 181000, firstAttempt = 1000\<rparr>]
       = ([''login_a@b.com'' \<mapsto> \<lparr>count = 8, resetTime = 181000, firstAttempt = 1000\<rparr>], False)
   \<and> isAllowed 181001 ''login_a@b.com'' 8 180000
        [''login_a@b.com'' \<mapsto> \<lparr>count = 8, resetTime = 181000, firstAttempt = 1000\<rparr>]
       = ([''login_a@b.com'' \<mapsto> \<lparr>count = 1, resetTime = 361001, firstAttempt = 181001\<rparr>], True)"
proof -
  let ?k = "''login_a@b.com''"
  let ?full = "[?k \<mapsto> \<lparr>count = 8, resetTime = 181000, firstAttempt = 1000\<rparr>]"
  have none: "Map.empty ?k = (None :: key_attempts option)" by simp
  note early = rapid_calls_fresh_key [OF none, where now = 1000 and n = 8 and t = 30999 and k = 7
      and m' = ?full and r = "\<lparr>count = 8, resetTime = 181000, firstAttempt = 1000\<rparr>"]
  note later = rapid_calls_fresh_key [OF none, where now = 1000 and n = 8 and t = 31000 and k = 7
      and m' = ?full and r = "\<lparr>count = 8, resetTime = 181000, firstAttempt = 1000\<rparr>"]
  note hard = rapid_calls_fresh_key [OF none, where now = 1000 and n = 8 and t = 181000 and k = 7
      and m' = ?full and r = "\<lparr>count = 8, resetTime = 181000, firstAttempt = 1000\<rparr>"]
  note past = rapid_calls_fresh_key [OF none, where now = 1000 and n = 8 and t = 181001 and k = 7
      and m' = ?full and r = "\<lparr>count = 8, resetTime = 181000, firstAttempt = 1000\<rparr>"]
  have a: "fst (rapid_calls 1000 ?k 8 180000 8 Map.empty)
             = [True, True, True, False, False, False, False, False]"
    and b: "getRemainingTime 1000 ?k (snd (rapid_calls 1000 ?k 8 180000 8 Map.empty)) = 30000"
    and c: "\<not> snd (isAllowed 30999 ?k 8 180000 (snd (rapid_calls 1000 ?k 8 180000 8 Map.empty)))"
    using early by (simp_all add: numeral_eq_Suc del: rapid_calls.simps)
  have d: "fst (rapid_calls 31000 ?k 8 180000 7 (snd (rapid_calls 1000 ?k 8 180000 8 Map.empty)))
             = [True, True, True, True, True, False, False]"
    using later by (simp add: numeral_eq_Suc del: rapid_calls.simps)
  have e: "isAllowed 181000 ?k 8 180000 ?full = (?full, False)"
    using hard by simp
  have f: "isAllowed 181001 ?k 8 180000 ?full
             = ([?k \<mapsto> \<lparr>count = 1, resetTime = 361001, firstAttempt = 181001\<rparr>], True)"
    using past by simp
  show ?thesis using a b c d e f by blast
qed

text \<open>
  Claim C1 as stated fails: of eight rapid calls for a fresh key the third is allowed, not
  refused, and the eighth is refused while the stored count is 3, so by the cooldown and not
  by the hard window.
\<close>

theorem third_rapid_call_allowed:
  "fst (rapid_calls 1000 ''login_a@b.com'' 8 180000 8 Map.empty)
     \<noteq> [True, True, False, False, False, False, False, False]
   \<and> fst (rapid_calls 1000 ''login_a@b.com'' 8 180000 8 Map.empty) ! 2 = True
   \<and> map_option count
        (snd (rapid_calls 1000 ''login_a@b.com'' 8 180000 8 Map.empty) ''login_a@b.com'') = Some 3"
  by (simp add: numeral_eq_Suc isAllowed_def)

lemma getStatus_allowed:
  assumes "m key = Some r"
  shows "isBlocked (snd (getStatus now key m)) = (\<not> snd (isAllowed now key 8 180000 m))"
  using assms by (auto simp: getStatus_def isAllowed_def Let_def split: prod.splits if_splits)

lemma rapid_status_step:
  assumes "m key = Some r" "now \<le> resetTime r" "0 < count r" "count r < 3"
  shows "fst (getStatus now key m) = m(key \<mapsto> r\<lparr>count := count r + 1\<rparr>)"
  using assms by (simp add: getStatus_def isAllowed_def Let_def)

text \<open>
  Claim C9, as the code has it. \<open>getStatus\<close> is not a read-only query: for a key with a
  record it runs \<open>isAllowed(key)\<close> with the default limits 8 and 180000. While the window of
  the record has not elapsed, a status query that reports the key as not blocked leaves the
  stored count one higher. Once the window has elapsed, the query reports the key as not
  blocked and replaces the record by a fresh one with count 1. Repeated queries push the key
  into the cooldown: from a record with one or two attempts, enough status queries at the
  same instant make the next \<open>isAllowed\<close> call fail although it would have been allowed
  without them.
\<close>

theorem getStatus_not_read_only:
  assumes "m key = Some r"
  shows "(now \<le> resetTime r \<and> \<not> isBlocked (snd (getStatus now key m)) \<longrightarrow>
            map_option count (fst (getStatus now key m) key) = Some (count r + 1)
          \<and> fst (getStatus now key m) \<noteq> m)
       \<and> (resetTime r < now \<longrightarrow>
            \<not> isBlocked (snd (getStatus now key m))
          \<and> fst (getStatus now key m) key
              = Some \<lparr>count = 1, resetTime = now + 180000, firstAttempt = now\<rparr>)
       \<and> (now \<le> resetTime r \<and> 0 < count r \<and> count r < 3 \<and> now - firstAttempt r < 30000 \<longrightarrow>
            snd (isAllowed now key 8 180000 m)
          \<and> \<not> snd (isAllowed now key 8 180000 (rapid_status now key (nat (3 - count r)) m)))"
proof (intro conjI impI)
  assume nb: "now \<le> resetTime r \<and> \<not> isBlocked (snd (getStatus now key m))"
  show "map_option count (fst (getStatus now key m) key) = Some (count r + 1)"
    using assms nb by (auto simp: getStatus_def isAllowed_def Let_def split: if_splits)
  then show "fst (getStatus now key m) \<noteq> m"
    using assms by auto
next
  assume late: "resetTime r < now"
  show "\<not> isBlocked (snd (getStatus now key m))"
    using assms late by (simp add: getStatus_def isAllowed_def Let_def)
  show "fst (getStatus now key m) key
          = Some \<lparr>count = 1, resetTime = now + 180000, firstAttempt = now\<rparr>"
    using assms late by (simp add: getStatus_def isAllowed_def Let_def)
next
  assume c: "now \<le> resetTime r \<and> 0 < count r \<and> count r < 3 \<and> now - firstAttempt r < 30000"
  then have live: "now \<le> resetTime r" by simp
  show "snd (isAllowed now key 8 180000 m)"
    using assms c by (simp add: isAllowed_def)
  from c have "count r = 1 \<or> count r = 2" by auto
  then show "\<not> snd (isAllowed now key 8 180000 (rapid_status now key (nat (3 - count r)) m))"
  proof
    assume c1: "count r = 1"
    have a: "fst (getStatus now key m) = m(key \<mapsto> r\<lparr>count := 2\<rparr>)"
      using rapid_status_step [where m=m and key=key and r=r and now=now] assms live c1 by simp
    have b: "fst (getStatus now key (m(key \<mapsto> r\<lparr>count := 2\<rparr>))) = m(key \<mapsto> r\<lparr>count := 3\<rparr>)"
      using rapid_status_step [of "m(key \<mapsto> r\<lparr>count := 2\<rparr>)" key "r\<lparr>count := 2\<rparr>" now] live by simp
    have "nat (3 - count r) = Suc (Suc 0)" using c1 by simp
    then show ?thesis using a b assms c by (simp add: isAllowed_def)
  next
    assume c2: "count r = 2"
    have a: "fst (getStatus now key m) = m(key \<mapsto> r\<lparr>count := 3\<rparr>)"
      using rapid_status_step [where m=m and key=key and r=r and now=now] assms live c2 by simp
    have "nat (3 - count r) = Suc 0" using c2 by simp
    then show ?thesis using a assms c by (simp add: isAllowed_def)
  qed
qed

theorem getStatus_not_read_only_witness:
  "map_option count
     (fst (getStatus 0 ''k'' [''k'' \<mapsto> \<lparr>count = 1, resetTime = 180000, firstAttempt = 0\<rparr>]) ''k'') = Some 2
   \<and> \<not> snd (isAllowed 0 ''k'' 8 180000
          (rapid_status 0 ''k'' 2 [''k'' \<mapsto> \<lparr>count = 1, resetTime = 180000, firstAttempt = 0\<rparr>]))
   \<and> fst (getStatus 200000 ''k'' [''k'' \<mapsto> \<lparr>count = 5, resetTime = 180000, firstAttempt = 0\<rparr>]) ''k''
       = Some \<lparr>count = 1, resetTime = 380000, firstAttempt = 200000\<rparr>"
  using getStatus_not_read_only
    [of "[''k'' \<mapsto> \<lparr>count = 1, resetTime = 180000, firstAttempt = 0\<rparr>]" "''k''"
        "\<lparr>count = 1, resetTime = 180000, firstAttempt = 0\<rparr>" 0]
    getStatus_not_read_only
    [of "[''k'' \<mapsto> \<lparr>count = 5, resetTime = 180000, firstAttempt = 0\<rparr>]" "''k''"
        "\<lparr>count = 5, resetTime = 180000, firstAttempt = 0\<rparr>" 200000]
  by (simp add: getStatus_def isAllowed_def)

text \<open>
  Claim C9 as stated fails for a record whose window has elapsed: the record exists and the
  status query reports it as not blocked, and the stored count goes from 5 to 1, not to 6.
\<close>

theorem status_query_after_window_resets_count:
  "\<not> isBlocked (snd (getStatus 200000 ''k''
          [''k'' \<mapsto> \<lparr>count = 5, resetTime = 180000, firstAttempt = 0\<rparr>]))
   \<and> map_option count
        (fst (getStatus 200000 ''k''
          [''k'' \<mapsto> \<lparr>count = 5, resetTime = 180000, firstAttempt = 0\<rparr>]) ''k'') = Some 1
   \<and> map_option count
        (fst (getStatus 200000 ''k''
          [''k'' \<mapsto> \<lparr>count = 5, resetTime = 180000, firstAttempt = 0\<rparr>]) ''k'') \<noteq> Some (5 + 1)"
  by (simp add: getStatus_def isAllowed_def)

section \<open>Properties of the service status detector\<close>

lemma str_includes_nonempty:
  "str_includes s needle \<Longrightarrow> needle \<noteq> [] \<Longrightarrow> s \<noteq> []"
  by (cases s) auto

lemma markFailure_counts:
  "consecutiveFailures (markFailure e s) = Suc (consecutiveFailures s)"
  by (simp add: markFailure_def Let_def)

lemma markFailure_second:
  "1 \<le> consecutiveFailures s \<Longrightarrow> isServiceAsleep (markFailure e s)"
  by (simp add: markFailure_def Let_def)

lemma markFailure_signature:
  assumes "\<exists>indicator \<in> set SLEEP_INDICATORS. str_includes (message e) indicator"
  shows "isServiceAsleep (markFailure e s)"
proof -
  from assms obtain indicator where i: "indicator \<in> set SLEEP_INDICATORS"
    and inc: "str_includes (message e) indicator" by blast
  from i have "indicator \<noteq> []" by (auto simp: SLEEP_INDICATORS_def)
  with inc have "message e \<noteq> []" by (rule str_includes_nonempty)
  with assms show ?thesis by (simp add: markFailure_def Let_def)
qed

text \<open>
  Claim C7. After two failures recorded one after the other by \<open>markFailure\<close>, whatever the
  errors and the state before, \<open>shouldUseWakeUpTimeout()\<close> returns true at any time. One
  \<open>markSuccess\<close> (at time \<open>t\<close>) then clears \<open>isServiceAsleep\<close> and the failure count, and
  \<open>shouldUseWakeUpTimeout()\<close> returns false for the following 15 minutes. A single failure
  whose message contains one of the \<open>SLEEP_INDICATORS\<close> sets \<open>isServiceAsleep\<close> at once.
\<close>

theorem wake_detection:
  "shouldUseWakeUpTimeout t0 (markFailure e2 (markFailure e1 s))
   \<and> \<not> isServiceAsleep (markSuccess t (markFailure e2 (markFailure e1 s)))
   \<and> consecutiveFailures (markSuccess t (markFailure e2 (markFailure e1 s))) = 0
   \<and> (t' - t \<le> 15 * 60 * 1000 \<longrightarrow>
         \<not> shouldUseWakeUpTimeout t' (markSuccess t (markFailure e2 (markFailure e1 s))))
   \<and> \<not> isServiceAsleep (markSuccess t s)
   \<and> ((\<exists>indicator \<in> set SLEEP_INDICATORS. str_includes (message e) indicator) \<longrightarrow>
         isServiceAsleep (markFailure e s) \<and> shouldUseWakeUpTimeout t0 (markFailure e s))"
proof -
  have "1 \<le> consecutiveFailures (markFailure e1 s)"
    by (simp add: markFailure_counts)
  then have asleep: "isServiceAsleep (markFailure e2 (markFailure e1 s))"
    by (rule markFailure_second)
  show ?thesis
    using asleep markFailure_signature [of e s]
    by (simp add: shouldUseWakeUpTimeout_def markSuccess_def)
qed

theorem wake_detection_witness:
  "shouldUseWakeUpTimeout 5000 (markFailure (Error ''a'') (markFailure (Error ''b'') (new_detector 0)))
   \<and> \<not> shouldUseWakeUpTimeout 7000
        (markSuccess 6000 (markFailure (Error ''a'') (markFailure (Error ''b'') (new_detector 0))))
   \<and> \<not> shouldUseWakeUpTimeout 5000 (markFailure (Error ''b'') (new_detector 0))
   \<and> isServiceAsleep (markFailure (Error ''Network Error'') (new_detector 0))"
  using wake_detection [of 5000 "Error ''a''" "Error ''b''" "new_detector 0" 6000 7000 "Error ''Network Error''"]
  by (simp add: SLEEP_INDICATORS_def Error_def new_detector_def markFailure_def
      shouldUseWakeUpTimeout_def toString_def)

section \<open>Properties of the retry loop\<close>

lemma retry_from_step:
  assumes "attempt \<le> MAX_RETRIES"
  shows "retry_from fn ctx attempt lastError w =
     (case fn (attempt_timeout attempt w) w of
        (Inr result, w1) \<Rightarrow> (Inr result, w1\<lparr>detector := markSuccess (clock w1) (detector w1)\<rparr>, 1)
      | (Inl error, w1) \<Rightarrow>
          if attempt = MAX_RETRIES
          then (Inl (exhausted ctx error), w1\<lparr>detector := markFailure error (detector w1)\<rparr>, 1)
          else (case retry_from fn ctx (Suc attempt) (Some error)
                  (w1\<lparr>detector := markFailure error (detector w1),
                      clock := clock w1 + backoff_delay attempt\<rparr>) of
             (res, w4, n) \<Rightarrow> (res, w4, Suc n)))"
  using assms
  by (subst retry_from.simps) (simp add: Let_def split: prod.splits sum.splits)






section \<open>Properties of the cache\<close>

lemma getFromCache_entry:
  assumes "storage w k = Some (Json (JObj [(''data'', d), (''timestamp'', JNum ts)]))"
  shows "getFromCache k ttl w =
           (if clock w - ts > ttl then (JNull, w\<lparr>storage := (storage w)(k := None)\<rparr>) else (d, w))"
  using assms by (simp add: getFromCache_def)

lemma getFromCache_absent:
  "storage w k = None \<Longrightarrow> getFromCache k ttl w = (JNull, w)"
  by (simp add: getFromCache_def)

lemma storage_saveToCache:
  "storage (saveToCache k v w) k = Some (Json (JObj [(''data'', v), (''timestamp'', JNum (clock w))]))"
  by (simp add: saveToCache_def)

lemma clock_saveToCache: "clock (saveToCache k v w) = clock w"
  by (simp add: saveToCache_def)

text \<open>
  Claim C2, as the code has it. For a cache entry with payload \<open>d\<close> stored at \<open>ts\<close>:
  \<open>getFromCache(key, ttl)\<close> returns the payload and leaves the storage alone when
  \<open>now - ts \<le> ttl\<close>, and returns \<open>null\<close> and removes the record when \<open>now - ts > ttl\<close>. So
  for a payload other than \<open>null\<close> the result is non-null exactly when \<open>now - ts \<le> ttl\<close>. A
  value read back immediately after \<open>saveToCache(key, value)\<close>, with any \<open>ttl\<close> that is
  not negative, is the stored value.
\<close>

theorem cache_ttl:
  assumes "storage w k = Some (Json (JObj [(''data'', d), (''timestamp'', JNum ts)]))"
  shows "(clock w - ts \<le> ttl \<longrightarrow> getFromCache k ttl w = (d, w))
       \<and> (clock w - ts > ttl \<longrightarrow>
            getFromCache k ttl w = (JNull, w\<lparr>storage := (storage w)(k := None)\<rparr>))
       \<and> (d \<noteq> JNull \<longrightarrow> (fst (getFromCache k ttl w) \<noteq> JNull \<longleftrightarrow> clock w - ts \<le> ttl))
       \<and> (0 \<le> ttl' \<longrightarrow> fst (getFromCache k' ttl' (saveToCache k' v w')) = v)"
proof -
  have "getFromCache k' ttl' (saveToCache k' v w') =
          (if clock (saveToCache k' v w') - clock w' > ttl'
           then (JNull, (saveToCache k' v w')\<lparr>storage := (storage (saveToCache k' v w'))(k' := None)\<rparr>)
           else (v, saveToCache k' v w'))"
    by (rule getFromCache_entry) (rule storage_saveToCache)
  then have round: "0 \<le> ttl' \<longrightarrow> fst (getFromCache k' ttl' (saveToCache k' v w')) = v"
    by (simp add: clock_saveToCache)
  show ?thesis
    using round by (simp add: getFromCache_entry [OF assms])
qed

theorem cache_ttl_witness:
  "getFromCache ''cached_muscles'' 3600000
      \<lparr>clock = 600000,
       storage = [''cached_muscles'' \<mapsto> Json (JObj [(''data'', JArr [JStr ''Pecho'']), (''timestamp'', JNum 0)])],
       online = False, detector = new_detector 0, server = [], requests = []\<rparr>
     = (JArr [JStr ''Pecho''],
        \<lparr>clock = 600000,
         storage = [''cached_muscles'' \<mapsto> Json (JObj [(''data'', JArr [JStr ''Pecho'']), (''timestamp'', JNum 0)])],
         online = False, detector = new_detector 0, server = [], requests = []\<rparr>)
   \<and> fst (getFromCache ''cached_muscles'' 1000
      \<lparr>clock = 600000,
       storage = [''cached_muscles'' \<mapsto> Json (JObj [(''data'', JArr [JStr ''Pecho'']), (''timestamp'', JNum 0)])],
       online = False, detector = new_detector 0, server = [], requests = []\<rparr>) = JNull
   \<and> fst (getFromCache ''k'' 1 (saveToCache ''k'' (JNum 7)
      \<lparr>clock = 600000, storage = Map.empty,
       online = False, detector = new_detector 0, server = [], requests = []\<rparr>)) = JNum 7"
  using cache_ttl
    [of "\<lparr>clock = 600000,
       storage = [''cached_muscles'' \<mapsto> Json (JObj [(''data'', JArr [JStr ''Pecho'']), (''timestamp'', JNum 0)])],
       online = False, detector = new_detector 0, server = [], requests = []\<rparr>"
       "''cached_muscles''" "JArr [JStr ''Pecho'']" 0 3600000 1 "''k''" "JNum 7"
       "\<lparr>clock = 600000, storage = Map.empty,
       online = False, detector = new_detector 0, server = [], requests = []\<rparr>"]
    cache_ttl
    [of "\<lparr>clock = 600000,
       storage = [''cached_muscles'' \<mapsto> Json (JObj [(''data'', JArr [JStr ''Pecho'']), (''timestamp'', JNum 0)])],
       online = False, detector = new_detector 0, server = [], requests = []\<rparr>"
       "''cached_muscles''" "JArr [JStr ''Pecho'']" 0 1000 1 "''k''" "JNum 7"
       "\<lparr>clock = 600000, storage = Map.empty,
       online = False, detector = new_detector 0, server = [], requests = []\<rparr>"]
  by simp

text \<open>
  Claim C2 as stated fails for an entry whose payload is \<open>null\<close>: the entry is present and
  its age 0 is within the TTL, and \<open>getFromCache\<close> returns \<open>null\<close>.
\<close>

theorem cached_null_reads_as_miss:
  "storage (saveToCache ''k'' JNull
      \<lparr>clock = 1000, storage = Map.empty, online = True, detector = new_detector 0,
       server = [], requests = []\<rparr>) ''k''
     = Some (Json (JObj [(''data'', JNull), (''timestamp'', JNum 1000)]))
   \<and> (1000::int) - 1000 \<le> 3600000
   \<and> fst (getFromCache ''k'' 3600000 (saveToCache ''k'' JNull
      \<lparr>clock = 1000, storage = Map.empty, online = True, detector = new_detector 0,
       server = [], requests = []\<rparr>)) = JNull"
  by (simp add: saveToCache_def getFromCache_def)

section \<open>Properties of the exercise queries\<close>

lemma storage_api_get: "storage (snd (api_get req w)) = storage w"
  by (simp add: api_get_def Let_def split: list.splits prod.splits sum.splits)

lemma storage_retry_from:
  assumes keeps: "\<And>t w1. storage (snd (fn t w1)) = storage w1"
    and "attempt \<le> MAX_RETRIES"
  shows "storage (fst (snd (retry_from fn ctx attempt lastError w))) = storage w"
  using assms(2)
proof (induction "MAX_RETRIES - attempt" arbitrary: attempt lastError w)
  case 0
  then have last: "attempt = MAX_RETRIES" by simp
  obtain out w1 where call: "fn (attempt_timeout attempt w) w = (out, w1)"
    by (metis prod.collapse)
  with keeps [of "attempt_timeout attempt w" w] have "storage w1 = storage w" by simp
  with call last show ?case
    by (cases out) (simp_all add: retry_from_step)
next
  case (Suc k)
  then have more: "attempt < MAX_RETRIES" and k: "k = MAX_RETRIES - Suc attempt" by simp_all
  obtain out w1 where call: "fn (attempt_timeout attempt w) w = (out, w1)"
    by (metis prod.collapse)
  with keeps [of "attempt_timeout attempt w" w] have same: "storage w1 = storage w" by simp
  show ?case
  proof (cases out)
    case (Inr v)
    with call same more show ?thesis by (simp add: retry_from_step)
  next
    case (Inl e)
    have "storage (fst (snd (retry_from fn ctx (Suc attempt) (Some e)
            (w1\<lparr>detector := markFailure e (detector w1), clock := clock w1 + backoff_delay attempt\<rparr>))))
          = storage (w1\<lparr>detector := markFailure e (detector w1), clock := clock w1 + backoff_delay attempt\<rparr>)"
      using Suc.hyps(1) [OF k] more by simp
    moreover have "retry_from fn ctx attempt lastError w =
        (case retry_from fn ctx (Suc attempt) (Some e)
            (w1\<lparr>detector := markFailure e (detector w1), clock := clock w1 + backoff_delay attempt\<rparr>) of
           (res, w4, n) \<Rightarrow> (res, w4, Suc n))"
      using retry_from_step [of attempt fn ctx lastError w] call Inl more by simp
    ultimately show ?thesis
      using same by (simp split: prod.splits)
  qed
qed

lemma storage_fetch_all_exercises:
  "storage (snd (fetch_all_exercises w)) = storage w"
proof -
  obtain res w1 n where run: "retry_from (\<lambda>timeout w'. api_get (Get_exercises []) w')
                   ''Legacy API call'' 1 None w = (res, w1, n)"
    by (metis prod_cases3)
  have "storage (fst (snd (retry_from (\<lambda>timeout w'. api_get (Get_exercises []) w')
                   ''Legacy API call'' 1 None w))) = storage w"
    by (rule storage_retry_from) (simp_all add: storage_api_get MAX_RETRIES_def)
  then have "storage w1 = storage w"
    unfolding run by simp
  then show ?thesis
    unfolding fetch_all_exercises_def retryWithBackoff_def retryWithRenderOptimization_def run
    by (simp split: sum.splits)
qed


lemma offline_branch:
  assumes "\<not> online w"
  shows "getAllExercises w =
     (case getFromCache ALL_EXERCISES 3600000 w of
        (cached, w1) \<Rightarrow>
          if truthy cached then (Inr cached, w1, [])
          else (Inl (Error (''Sin conexi'' @ [CHR 0xF3]
                            @ ''n y no hay ejercicios guardados localmente'')), w1, []))"
proof -
  obtain cached w1 where g: "getFromCache ALL_EXERCISES 3600000 w = (cached, w1)"
    by (metis prod.collapse)
  have "online (snd (getFromCache ALL_EXERCISES 3600000 w)) = online w"
    by (simp add: getFromCache_def Let_def split: option.splits jsval.splits)
  with g assms have "\<not> online w1" by simp
  with g show ?thesis
    by (simp add: getAllExercises_def)
qed

lemma requests_getFromCache: "requests (snd (getFromCache k ttl w)) = requests w"
  by (simp add: getFromCache_def Let_def split: option.splits jsval.splits)

text \<open>
  Claim C6, as the code has it. With the device offline \<open>getAllExercises()\<close> sends no request
  and starts no background work. When the storage holds nothing under the catalog key it
  throws the message of the source, \<open>Sin conexion y no hay ejercicios guardados localmente\<close>
  with its accented letter, which has no full stop at its end; when the storage holds a cached array whose age is within the hour
  it returns that array and leaves the environment as it was.
\<close>

theorem getAllExercises_offline_paths:
  assumes "\<not> online w"
  shows "requests (fst (snd (getAllExercises w))) = requests w
       \<and> snd (snd (getAllExercises w)) = []
       \<and> (storage w ALL_EXERCISES = None \<longrightarrow>
            getAllExercises w =
              (Inl (Error (''Sin conexi'' @ [CHR 0xF3]
                           @ ''n y no hay ejercicios guardados localmente'')), w, []))
       \<and> (storage w ALL_EXERCISES
              = Some (Json (JObj [(''data'', JArr xs), (''timestamp'', JNum ts)]))
            \<and> clock w - ts \<le> 3600000 \<longrightarrow>
            getAllExercises w = (Inr (JArr xs), w, []))"
proof (intro conjI impI)
  obtain cached w1 where g: "getFromCache ALL_EXERCISES 3600000 w = (cached, w1)"
    by (metis prod.collapse)
  with requests_getFromCache [of ALL_EXERCISES 3600000 w] have "requests w1 = requests w"
    by simp
  with g show "requests (fst (snd (getAllExercises w))) = requests w"
    by (simp add: offline_branch [OF assms])
  show "snd (snd (getAllExercises w)) = []"
    by (simp add: offline_branch [OF assms] split: prod.splits)
next
  assume "storage w ALL_EXERCISES = None"
  then show "getAllExercises w =
              (Inl (Error (''Sin conexi'' @ [CHR 0xF3]
                           @ ''n y no hay ejercicios guardados localmente'')), w, [])"
    by (simp add: offline_branch [OF assms] getFromCache_absent)
next
  assume "storage w ALL_EXERCISES
              = Some (Json (JObj [(''data'', JArr xs), (''timestamp'', JNum ts)]))
            \<and> clock w - ts \<le> 3600000"
  then show "getAllExercises w = (Inr (JArr xs), w, [])"
    by (simp add: offline_branch [OF assms] getFromCache_entry)
qed

theorem getAllExercises_offline_paths_witness:
  "getAllExercises
      \<lparr>clock = 600000, storage = Map.empty, online = False, detector = new_detector 0,
       server = [], requests = []\<rparr>
     = (Inl (Error (''Sin conexi'' @ [CHR 0xF3] @ ''n y no hay ejercicios guardados localmente'')),
        \<lparr>clock = 600000, storage = Map.empty, online = False, detector = new_detector 0,
         server = [], requests = []\<rparr>, [])
   \<and> getAllExercises
      \<lparr>clock = 600000,
       storage = [ALL_EXERCISES \<mapsto> Json (JObj [(''data'', JArr [JNum 1]), (''timestamp'', JNum 0)])],
       online = False, detector = new_detector 0, server = [], requests = []\<rparr>
     = (Inr (JArr [JNum 1]),
        \<lparr>clock = 600000,
         storage = [ALL_EXERCISES \<mapsto> Json (JObj [(''data'', JArr [JNum 1]), (''timestamp'', JNum 0)])],
         online = False, detector = new_detector 0, server = [], requests = []\<rparr>, [])"
  using getAllExercises_offline_paths
      [of "\<lparr>clock = 600000, storage = Map.empty, online = False, detector = new_detector 0,
            server = [], requests = []\<rparr>" "[JNum 1]" 0]
    getAllExercises_offline_paths
      [of "\<lparr>clock = 600000,
       storage = [ALL_EXERCISES \<mapsto> Json (JObj [(''data'', JArr [JNum 1]), (''timestamp'', JNum 0)])],
       online = False, detector = new_detector 0, server = [], requests = []\<rparr>" "[JNum 1]" 0]
  by simp

text \<open>
  Claim C6 as stated fails on the text of the message: the claim quotes it with a full stop
  at the end, and the error thrown for an offline device with an empty storage ends in
  \<open>localmente\<close>.
\<close>

theorem offline_message_has_no_full_stop:
  "fst (getAllExercises
      \<lparr>clock = 600000, storage = Map.empty, online = False, detector = new_detector 0,
       server = [], requests = []\<rparr>)
     \<noteq> Inl (Error (''Sin conexi'' @ [CHR 0xF3] @ ''n y no hay ejercicios guardados localmente.''))
   \<and> fst (getAllExercises
      \<lparr>clock = 600000, storage = Map.empty, online = False, detector = new_detector 0,
       server = [], requests = []\<rparr>)
     = Inl (Error (''Sin conexi'' @ [CHR 0xF3] @ ''n y no hay ejercicios guardados localmente''))"
  by (simp add: getAllExercises_def getFromCache_def Error_def)

lemma getAllExercises_cached:
  assumes "storage w ALL_EXERCISES = Some (Json (JObj [(''data'', d), (''timestamp'', JNum ts)]))"
    and "truthy d" and "clock w - ts \<le> 3600000"
  shows "getAllExercises w = (Inr d, w, if online w then [Refresh_all_exercises] else [])"
  using assms by (simp add: getAllExercises_def getFromCache_entry)

lemma exercises_by_cached:
  assumes "storage w (prefix @ v) = Some (Json (JObj [(''data'', d), (''timestamp'', JNum ts)]))"
    and "truthy d" and "clock w - ts \<le> 3600000"
  shows "exercises_by prefix param failure v w = (Inr d, w, [])"
  using assms by (simp add: exercises_by_def getFromCache_entry)

lemma searchExercises_cached:
  assumes "storage w (SEARCH_RESULTS @ toLowerCase query)
             = Some (Json (JObj [(''data'', d), (''timestamp'', JNum ts)]))"
    and "truthy d" and "clock w - ts \<le> 1800000"
  shows "searchExercises query w = (Inr d, w, [])"
  using assms by (simp add: searchExercises_def getFromCache_entry)

lemma getExerciseById_cached:
  assumes "storage w ALL_EXERCISES = Some (Json (JObj [(''data'', JArr xs), (''timestamp'', JNum ts)]))"
    and "clock w - ts \<le> 3600000" and "find_by_id (parseInt i) xs = Inr (Some exercise)"
  shows "getExerciseById i w = (Inr exercise, w, [])"
  using assms by (simp add: getExerciseById_def getFromCache_entry)

lemma run_background_outcome:
  "(fst (fetch_all_exercises w) = Inr fresh \<longrightarrow>
      storage (run_background Refresh_all_exercises w)
        = (storage w)(ALL_EXERCISES \<mapsto>
             Json (JObj [(''data'', fresh),
                         (''timestamp'', JNum (clock (snd (fetch_all_exercises w))))])))
   \<and> ((\<exists>e. fst (fetch_all_exercises w) = Inl e) \<longrightarrow>
      storage (run_background Refresh_all_exercises w) = storage w)"
proof -
  obtain out w1 where f: "fetch_all_exercises w = (out, w1)" by (metis prod.collapse)
  with storage_fetch_all_exercises [of w] have "storage w1 = storage w" by simp
  with f show ?thesis
    by (cases out) (simp_all add: updateCacheInBackground_def saveToCache_def)
qed


text \<open>
  Claim C5, as the code has it. Let the storage hold, under the cache key of the query, a
  truthy payload \<open>d\<close> (every array is one) whose age is within the TTL of that query. Then
  every query returns \<open>d\<close> at once, without sending a request and without changing the
  environment. Only \<open>getAllExercises\<close> starts a background refresh, and only when the device
  is online; \<open>getExercisesByMuscle\<close>, \<open>getExercisesByEquipment\<close> and \<open>searchExercises\<close>
  start none, online or not. \<open>getExerciseById\<close> has no cache entry of its own: it returns the
  record it finds in the cached catalog and starts no refresh either. The refresh, whenever
  it runs, stores the fresh catalog when its fetch succeeds and leaves the storage as it is
  when the fetch fails; the result of the query does not depend on it.
\<close>

theorem cached_queries:
  assumes "storage w k = Some (Json (JObj [(''data'', d), (''timestamp'', JNum ts)]))"
    and "truthy d"
  shows "(k = ALL_EXERCISES \<and> clock w - ts \<le> 3600000 \<longrightarrow>
            getAllExercises w = (Inr d, w, if online w then [Refresh_all_exercises] else []))
       \<and> (k = EXERCISES_BY_MUSCLE @ muscle \<and> clock w - ts \<le> 3600000 \<longrightarrow>
            getExercisesByMuscle muscle w = (Inr d, w, []))
       \<and> (k = EXERCISES_BY_EQUIPMENT @ equipment \<and> clock w - ts \<le> 3600000 \<longrightarrow>
            getExercisesByEquipment equipment w = (Inr d, w, []))
       \<and> (k = SEARCH_RESULTS @ toLowerCase query \<and> clock w - ts \<le> 1800000 \<longrightarrow>
            searchExercises query w = (Inr d, w, []))
       \<and> (k = ALL_EXERCISES \<and> clock w - ts \<le> 3600000
            \<and> (\<exists>xs. d = JArr xs \<and> find_by_id (parseInt i) xs = Inr (Some exercise)) \<longrightarrow>
            getExerciseById i w = (Inr exercise, w, []))
       \<and> (fst (fetch_all_exercises w') = Inr fresh \<longrightarrow>
            storage (run_background Refresh_all_exercises w')
              = (storage w')(ALL_EXERCISES \<mapsto>
                   Json (JObj [(''data'', fresh),
                               (''timestamp'', JNum (clock (snd (fetch_all_exercises w'))))])))
       \<and> ((\<exists>e. fst (fetch_all_exercises w') = Inl e) \<longrightarrow>
            storage (run_background Refresh_all_exercises w') = storage w')"
proof (intro conjI impI)
  assume "k = ALL_EXERCISES \<and> clock w - ts \<le> 3600000"
  with assms show "getAllExercises w = (Inr d, w, if online w then [Refresh_all_exercises] else [])"
    by (simp add: getAllExercises_cached)
next
  assume "k = EXERCISES_BY_MUSCLE @ muscle \<and> clock w - ts \<le> 3600000"
  with assms show "getExercisesByMuscle muscle w = (Inr d, w, [])"
    by (simp add: getExercisesByMuscle_def exercises_by_cached)
next
  assume "k = EXERCISES_BY_EQUIPMENT @ equipment \<and> clock w - ts \<le> 3600000"
  with assms show "getExercisesByEquipment equipment w = (Inr d, w, [])"
    by (simp add: getExercisesByEquipment_def exercises_by_cached)
next
  assume "k = SEARCH_RESULTS @ toLowerCase query \<and> clock w - ts \<le> 1800000"
  with assms show "searchExercises query w = (Inr d, w, [])"
    by (simp add: searchExercises_cached)
next
  assume "k = ALL_EXERCISES \<and> clock w - ts \<le> 3600000
            \<and> (\<exists>xs. d = JArr xs \<and> find_by_id (parseInt i) xs = Inr (Some exercise))"
  with assms show "getExerciseById i w = (Inr exercise, w, [])"
    by (auto simp: getExerciseById_cached)
next
  assume "fst (fetch_all_exercises w') = Inr fresh"
  then show "storage (run_background Refresh_all_exercises w')
              = (storage w')(ALL_EXERCISES \<mapsto>
                   Json (JObj [(''data'', fresh),
                               (''timestamp'', JNum (clock (snd (fetch_all_exercises w'))))]))"
    using run_background_outcome [of w' fresh] by blast
next
  assume "\<exists>e. fst (fetch_all_exercises w') = Inl e"
  then show "storage (run_background Refresh_all_exercises w') = storage w'"
    using run_background_outcome [of w' fresh] by blast
qed

text \<open>
  Claim C5 as stated fails for the query by muscle: with the device online and a cached copy
  ten minutes old, \<open>getExercisesByMuscle\<close> returns the copy, starts no background refresh and
  sends no request.
\<close>

theorem by_muscle_starts_no_refresh:
  "getExercisesByMuscle ''Pecho''
      \<lparr>clock = 600000,
       storage = [''cached_exercises_muscle_Pecho'' \<mapsto>
                    Json (JObj [(''data'', JArr [JNum 1]), (''timestamp'', JNum 0)])],
       online = True, detector = new_detector 0, server = [], requests = []\<rparr>
     = (Inr (JArr [JNum 1]),
        \<lparr>clock = 600000,
         storage = [''cached_exercises_muscle_Pecho'' \<mapsto>
                      Json (JObj [(''data'', JArr [JNum 1]), (''timestamp'', JNum 0)])],
         online = True, detector = new_detector 0, server = [], requests = []\<rparr>,
        [])"
  by (simp add: getExercisesByMuscle_def exercises_by_def getFromCache_def EXERCISES_BY_MUSCLE_def)


theorem cached_queries_witness:
  "getAllExercises (device 600000 True
        [ALL_EXERCISES \<mapsto> Json (JObj [(''data'', JArr [JObj [(''id'', JNum 7)]]), (''timestamp'', JNum 0)])] [])
     = (Inr (JArr [JObj [(''id'', JNum 7)]]),
        device 600000 True
          [ALL_EXERCISES \<mapsto> Json (JObj [(''data'', JArr [JObj [(''id'', JNum 7)]]), (''timestamp'', JNum 0)])] [],
        [Refresh_all_exercises])
   \<and> getExerciseById ''7'' (device 600000 True
        [ALL_EXERCISES \<mapsto> Json (JObj [(''data'', JArr [JObj [(''id'', JNum 7)]]), (''timestamp'', JNum 0)])] [])
     = (Inr (JObj [(''id'', JNum 7)]),
        device 600000 True
          [ALL_EXERCISES \<mapsto> Json (JObj [(''data'', JArr [JObj [(''id'', JNum 7)]]), (''timestamp'', JNum 0)])] [],
        [])
   \<and> getExercisesByMuscle ''Pecho'' (device 600000 True
        [EXERCISES_BY_MUSCLE @ ''Pecho'' \<mapsto> Json (JObj [(''data'', JArr []), (''timestamp'', JNum 0)])] [])
     = (Inr (JArr []),
        device 600000 True
          [EXERCISES_BY_MUSCLE @ ''Pecho'' \<mapsto> Json (JObj [(''data'', JArr []), (''timestamp'', JNum 0)])] [],
        [])
   \<and> getExercisesByEquipment ''Barra'' (device 600000 True
        [EXERCISES_BY_EQUIPMENT @ ''Barra'' \<mapsto> Json (JObj [(''data'', JArr []), (''timestamp'', JNum 0)])] [])
     = (Inr (JArr []),
        device 600000 True
          [EXERCISES_BY_EQUIPMENT @ ''Barra'' \<mapsto> Json (JObj [(''data'', JArr []), (''timestamp'', JNum 0)])] [],
        [])
   \<and> searchExercises ''Press'' (device 600000 True
        [SEARCH_RESULTS @ ''press'' \<mapsto> Json (JObj [(''data'', JArr []), (''timestamp'', JNum 0)])] [])
     = (Inr (JArr []),
        device 600000 True
          [SEARCH_RESULTS @ ''press'' \<mapsto> Json (JObj [(''data'', JArr []), (''timestamp'', JNum 0)])] [],
        [])
   \<and> storage (run_background Refresh_all_exercises (device 600000 True Map.empty [(5, Inr (JArr []))]))
     = [ALL_EXERCISES \<mapsto> Json (JObj [(''data'', JArr []), (''timestamp'', JNum 600005)])]
   \<and> storage (run_background Refresh_all_exercises (device 600000 True Map.empty []))
     = Map.empty"
proof -
  let ?catalog = "JArr [JObj [(''id'', JNum 7)]]"
  let ?entry = "\<lambda>d. Json (JObj [(''data'', d), (''timestamp'', JNum 0)])"
  let ?all = "device 600000 True [ALL_EXERCISES \<mapsto> ?entry ?catalog] []"
  let ?muscle = "device 600000 True [EXERCISES_BY_MUSCLE @ ''Pecho'' \<mapsto> ?entry (JArr [])] []"
  let ?equipment = "device 600000 True [EXERCISES_BY_EQUIPMENT @ ''Barra'' \<mapsto> ?entry (JArr [])] []"
  let ?search = "device 600000 True [SEARCH_RESULTS @ ''press'' \<mapsto> ?entry (JArr [])] []"
  let ?ok = "device 600000 True Map.empty [(5, Inr (JArr []))]"
  let ?bad = "device 600000 True Map.empty []"
  have lower: "toLowerCase ''Press'' = ''press''"
    by code_simp
  have seven: "parseInt ''7'' = Some 7"
    by (simp add: parseInt_def parse_digits_def digit_of_def is_space_def)
  have ok: "fetch_all_exercises ?ok
      = (Inr (JArr []),
         \<lparr>clock = 600005, storage = Map.empty, online = True,
          detector = \<lparr>isServiceAsleep = False, lastSuccessfulRequest = 600005, consecutiveFailures = 0\<rparr>,
          server = [], requests = [Get_exercises []]\<rparr>)"
    by (simp add: fetch_all_exercises_def retryWithBackoff_def retryWithRenderOptimization_def
      retry_from_step MAX_RETRIES_def api_get_def device_def map_response_def markSuccess_def compressParams_def)
  have bad: "fst (fetch_all_exercises ?bad)
      = Inl (Error ''Legacy API call failed after 3 attempts. Last error: Network Error'')"
    by (simp add: fetch_all_exercises_def retryWithBackoff_def retryWithRenderOptimization_def
      retry_from_step MAX_RETRIES_def api_get_def device_def network_error_def exhausted_def)
  have e1: "storage ?all ALL_EXERCISES = Some (?entry ?catalog)"
    and e2: "storage ?muscle (EXERCISES_BY_MUSCLE @ ''Pecho'') = Some (?entry (JArr []))"
    and e3: "storage ?equipment (EXERCISES_BY_EQUIPMENT @ ''Barra'') = Some (?entry (JArr []))"
    and e4: "storage ?search (SEARCH_RESULTS @ ''press'') = Some (?entry (JArr []))"
    by (simp_all add: device_def)
  have t1: "truthy ?catalog" and t2: "truthy (JArr [])"
    by simp_all
  have age: "clock ?all - 0 \<le> 3600000" "clock ?muscle - 0 \<le> 3600000"
    "clock ?equipment - 0 \<le> 3600000" "clock ?search - 0 \<le> 1800000"
    by (simp_all add: device_def)
  have c1: "getAllExercises ?all = (Inr ?catalog, ?all, [Refresh_all_exercises])"
    and c2: "getExerciseById ''7'' ?all = (Inr (JObj [(''id'', JNum 7)]), ?all, [])"
    and c3: "storage (run_background Refresh_all_exercises ?ok)
               = [ALL_EXERCISES \<mapsto> Json (JObj [(''data'', JArr []), (''timestamp'', JNum 600005)])]"
    using cached_queries [OF e1 t1, where i = "''7''" and exercise = "JObj [(''id'', JNum 7)]"
                             and w' = ?ok and fresh = "JArr []"] age(1)
    by (simp_all add: seven ok) (simp_all add: device_def)
  have c4: "getExercisesByMuscle ''Pecho'' ?muscle = (Inr (JArr []), ?muscle, [])"
    and c5: "storage (run_background Refresh_all_exercises ?bad) = Map.empty"
    using cached_queries [OF e2 t2, where muscle = "''Pecho''" and w' = ?bad] age(2)
    by (simp_all add: bad) (simp_all add: device_def)
  have c6: "getExercisesByEquipment ''Barra'' ?equipment = (Inr (JArr []), ?equipment, [])"
    using cached_queries [OF e3 t2, where equipment = "''Barra''"] age(3)
    by simp
  have c7: "searchExercises ''Press'' ?search = (Inr (JArr []), ?search, [])"
    using cached_queries [OF e4 t2, where query = "''Press''"] age(4)
    by (simp add: lower)
  show ?thesis
    using c1 c2 c3 c4 c5 c6 c7 by blast
qed
section \<open>Properties of the preference service\<close>

lemma map_of_replace:
  "map_of (map (\<lambda>(k', v'). if k' = k then (k', v) else (k', v')) kvs) x
     = (if x = k then (if k \<in> fst ` set kvs then Some v else None) else map_of kvs x)"
  by (induction kvs) (auto simp: rev_image_eqI)

lemma map_of_set_prop: "map_of (set_prop k v kvs) = (map_of kvs)(k \<mapsto> v)"
proof (cases "k \<in> fst ` set kvs")
  case True
  then show ?thesis
    by (auto simp: set_prop_def map_of_replace fun_eq_iff)
next
  case False
  then have "map_of kvs k = None" by (simp add: map_of_eq_None_iff)
  then have "map_of (kvs @ [(k, v)]) = (map_of kvs)(k \<mapsto> v)"
    by (auto simp: map_add_def fun_eq_iff split: option.splits)
  with False show ?thesis by (simp add: set_prop_def)
qed










text \<open>
  Claim C3, as the code has it. Let the device be online and the document store answer its
  calls, let the local storage hold a preference document whose \<open>lastUpdated\<close> is the
  instant \<open>T1\<close> and the remote store a document whose \<open>lastUpdated\<close> is the instant \<open>T2\<close>.
  After \<open>syncPendingData\<close>: when \<open>T1 > T2\<close> the remote document has been replaced by the
  local one, and that is the only write; when \<open>T2 > T1\<close> the local text has been replaced
  by the remote document, and that is the only write; when \<open>T1 = T2\<close> nothing has been
  written and the environment is unchanged. In the first two cases both sides hold the
  document with the greater timestamp, and in all three the result is \<open>true\<close>. On a device
  that is offline the result is \<open>false\<close> and the environment is unchanged.
\<close>

theorem sync_last_write_wins:
  assumes "online w" and "outages w = []"
    and "storage w (preferences_key userId) = Some (Json (JObj l))"
    and "firestore w userId = Some (JObj r)"
    and "getTime parsed (or_else (get_prop ''lastUpdated'' (JObj l)) (JNum 0)) = Some T1"
    and "getTime parsed (or_else (get_prop ''lastUpdated'' (JObj r)) (JNum 0)) = Some T2"
  shows "(T1 > T2 \<longrightarrow>
            syncPendingData parsed userId w
              = (True, w\<lparr>firestore := (firestore w)(userId \<mapsto> JObj l),
                          writes := writes w @ [Remote_write userId]\<rparr>)
          \<and> storage (snd (syncPendingData parsed userId w)) (preferences_key userId)
              = Some (Json (JObj l))
          \<and> firestore (snd (syncPendingData parsed userId w)) userId = Some (JObj l))
       \<and> (T2 > T1 \<longrightarrow>
            syncPendingData parsed userId w
              = (True, w\<lparr>storage := (storage w)(preferences_key userId \<mapsto> Json (JObj r)),
                          writes := writes w @ [Local_write (preferences_key userId)]\<rparr>)
          \<and> storage (snd (syncPendingData parsed userId w)) (preferences_key userId)
              = Some (Json (JObj r))
          \<and> firestore (snd (syncPendingData parsed userId w)) userId = Some (JObj r))
       \<and> (T1 = T2 \<longrightarrow> syncPendingData parsed userId w = (True, w))
       \<and> (\<not> online w' \<longrightarrow> syncPendingData parsed userId w' = (False, w'))"
proof -
  have fetch: "getDoc userId w = (Inr (Some (JObj r)), w)"
    using assms by (simp add: getDoc_def store_call_def)
  have push: "setDoc userId (JObj l) w
      = (Inr (), w\<lparr>firestore := (firestore w)(userId \<mapsto> JObj l),
                    writes := writes w @ [Remote_write userId]\<rparr>)"
    using assms by (simp add: setDoc_def store_call_def)
  have up: "T1 > T2 \<longrightarrow> syncPendingData parsed userId w
              = (True, w\<lparr>firestore := (firestore w)(userId \<mapsto> JObj l),
                          writes := writes w @ [Remote_write userId]\<rparr>)"
    using assms fetch push by (simp add: syncPendingData_def num_gt_def)
  have down: "T2 > T1 \<longrightarrow> syncPendingData parsed userId w
              = (True, w\<lparr>storage := (storage w)(preferences_key userId \<mapsto> Json (JObj r)),
                          writes := writes w @ [Local_write (preferences_key userId)]\<rparr>)"
    using assms fetch by (simp add: syncPendingData_def num_gt_def setItem_def)
  have same: "T1 = T2 \<longrightarrow> syncPendingData parsed userId w = (True, w)"
    using assms fetch by (simp add: syncPendingData_def num_gt_def)
  have off: "\<not> online w' \<longrightarrow> syncPendingData parsed userId w' = (False, w')"
    by (simp add: syncPendingData_def)
  show ?thesis
    using up down same off assms by simp
qed

theorem sync_last_write_wins_witness:
  "syncPendingData
      (\<lambda>v. if v = JStr ''2024-02-29T00:00:00.123Z'' then Some 1709164800123
            else if v = JStr ''2023-11-14T22:13:20.000Z'' then Some 1700000000000 else None)
      ''u1''
      \<lparr>clock = 1709164800123,
       storage = [preferences_key ''u1'' \<mapsto>
                    Json (JObj [(''goals'', JArr [JStr ''fuerza'']),
                                (''lastUpdated'', JStr ''2024-02-29T00:00:00.123Z'')])],
       online = True, detector = new_detector 0, server = [], requests = [],
       firestore = [''u1'' \<mapsto> JObj [(''goals'', JArr []),
                                      (''lastUpdated'', JStr ''2023-11-14T22:13:20.000Z'')]],
       outages = [], writes = []\<rparr>
    = (True,
       \<lparr>clock = 1709164800123,
       storage = [preferences_key ''u1'' \<mapsto>
                    Json (JObj [(''goals'', JArr [JStr ''fuerza'']),
                                (''lastUpdated'', JStr ''2024-02-29T00:00:00.123Z'')])],
       online = True, detector = new_detector 0, server = [], requests = [],
       firestore = [''u1'' \<mapsto> JObj [(''goals'', JArr [JStr ''fuerza'']),
                                      (''lastUpdated'', JStr ''2024-02-29T00:00:00.123Z'')]],
       outages = [], writes = [Remote_write ''u1'']\<rparr>)
   \<and> syncPendingData
      (\<lambda>v. if v = JStr ''2024-02-29T00:00:00.123Z'' then Some 1709164800123
            else if v = JStr ''2023-11-14T22:13:20.000Z'' then Some 1700000000000 else None)
      ''u1''
      \<lparr>clock = 1709164800123,
       storage = [preferences_key ''u1'' \<mapsto>
                    Json (JObj [(''goals'', JArr []),
                                (''lastUpdated'', JStr ''2023-11-14T22:13:20.000Z'')])],
       online = True, detector = new_detector 0, server = [], requests = [],
       firestore = [''u1'' \<mapsto> JObj [(''goals'', JArr [JStr ''fuerza'']),
                                      (''lastUpdated'', JStr ''2024-02-29T00:00:00.123Z'')]],
       outages = [], writes = []\<rparr>
    = (True,
       \<lparr>clock = 1709164800123,
       storage = [preferences_key ''u1'' \<mapsto>
                    Json (JObj [(''goals'', JArr [JStr ''fuerza'']),
                                (''lastUpdated'', JStr ''2024-02-29T00:00:00.123Z'')])],
       online = True, detector = new_detector 0, server = [], requests = [],
       firestore = [''u1'' \<mapsto> JObj [(''goals'', JArr [JStr ''fuerza'']),
                                      (''lastUpdated'', JStr ''2024-02-29T00:00:00.123Z'')]],
       outages = [], writes = [Local_write (preferences_key ''u1'')]\<rparr>)
   \<and> syncPendingData
      (\<lambda>v. if v = JStr ''2024-02-29T00:00:00.123Z'' then Some 1709164800123
            else if v = JStr ''2023-11-14T22:13:20.000Z'' then Some 1700000000000 else None)
      ''u1''
      \<lparr>clock = 1709164800123,
       storage = [preferences_key ''u1'' \<mapsto>
                    Json (JObj [(''goals'', JArr [JStr ''fuerza'']),
                                (''lastUpdated'', JStr ''2024-02-29T00:00:00.123Z'')])],
       online = True, detector = new_detector 0, server = [], requests = [],
       firestore = [''u1'' \<mapsto> JObj [(''goals'', JArr []),
                                      (''lastUpdated'', JStr ''2024-02-29T00:00:00.123Z'')]],
       outages = [], writes = []\<rparr>
    = (True,
       \<lparr>clock = 1709164800123,
       storage = [preferences_key ''u1'' \<mapsto>
                    Json (JObj [(''goals'', JArr [JStr ''fuerza'']),
                                (''lastUpdated'', JStr ''2024-02-29T00:00:00.123Z'')])],
       online = True, detector = new_detector 0, server = [], requests = [],
       firestore = [''u1'' \<mapsto> JObj [(''goals'', JArr []),
                                      (''lastUpdated'', JStr ''2024-02-29T00:00:00.123Z'')]],
       outages = [], writes = []\<rparr>)
   \<and> syncPendingData
      (\<lambda>v. if v = JStr ''2024-02-29T00:00:00.123Z'' then Some 1709164800123
            else if v = JStr ''2023-11-14T22:13:20.000Z'' then Some 1700000000000 else None)
      ''u1''
      \<lparr>clock = 1709164800123,
       storage = [preferences_key ''u1'' \<mapsto>
                    Json (JObj [(''goals'', JArr [JStr ''fuerza'']),
                                (''lastUpdated'', JStr ''2024-02-29T00:00:00.123Z'')])],
       online = False, detector = new_detector 0, server = [], requests = [],
       firestore = [''u1'' \<mapsto> JObj [(''goals'', JArr []),
                                      (''lastUpdated'', JStr ''2023-11-14T22:13:20.000Z'')]],
       outages = [], writes = []\<rparr>
    = (False,
       \<lparr>clock = 1709164800123,
       storage = [preferences_key ''u1'' \<mapsto>
                    Json (JObj [(''goals'', JArr [JStr ''fuerza'']),
                                (''lastUpdated'', JStr ''2024-02-29T00:00:00.123Z'')])],
       online = False, detector = new_detector 0, server = [], requests = [],
       firestore = [''u1'' \<mapsto> JObj [(''goals'', JArr []),
                                      (''lastUpdated'', JStr ''2023-11-14T22:13:20.000Z'')]],
       outages = [], writes = []\<rparr>)"
proof -
  let ?new = "[(''goals'', JArr [JStr ''fuerza'']), (''lastUpdated'', JStr ''2024-02-29T00:00:00.123Z'')]"
  let ?old = "[(''goals'', JArr []), (''lastUpdated'', JStr ''2023-11-14T22:13:20.000Z'')]"
  let ?tie = "[(''goals'', JArr []), (''lastUpdated'', JStr ''2024-02-29T00:00:00.123Z'')]"
  let ?parsed = "\<lambda>v. if v = JStr ''2024-02-29T00:00:00.123Z'' then Some (1709164800123 :: int)
            else if v = JStr ''2023-11-14T22:13:20.000Z'' then Some 1700000000000 else None"
  let ?dev = "\<lambda>net loc rem. \<lparr>clock = 1709164800123,
       storage = [preferences_key ''u1'' \<mapsto> Json (JObj loc)],
       online = net, detector = new_detector 0, server = [], requests = [],
       firestore = [''u1'' \<mapsto> JObj rem], outages = [], writes = []\<rparr>"
  have t_new: "getTime ?parsed (or_else (get_prop ''lastUpdated'' (JObj ?new)) (JNum 0))
                 = Some 1709164800123"
    and t_old: "getTime ?parsed (or_else (get_prop ''lastUpdated'' (JObj ?old)) (JNum 0))
                 = Some 1700000000000"
    and t_tie: "getTime ?parsed (or_else (get_prop ''lastUpdated'' (JObj ?tie)) (JNum 0))
                 = Some 1709164800123"
    by (simp_all add: getTime_def or_else_def)
  have a: "syncPendingData ?parsed ''u1'' (?dev True ?new ?old)
      = (True, (?dev True ?new ?old)\<lparr>firestore := (firestore (?dev True ?new ?old))(''u1'' \<mapsto> JObj ?new),
                          writes := writes (?dev True ?new ?old) @ [Remote_write ''u1'']\<rparr>)"
    using sync_last_write_wins [where w = "?dev True ?new ?old" and userId = "''u1''"
            and l = ?new and r = ?old and ?T1.0 = 1709164800123 and ?T2.0 = 1700000000000
            and parsed = ?parsed and w' = "?dev False ?new ?old"]
          t_new t_old
    by simp
  have b: "syncPendingData ?parsed ''u1'' (?dev True ?old ?new)
      = (True, (?dev True ?old ?new)\<lparr>storage := (storage (?dev True ?old ?new))(preferences_key ''u1'' \<mapsto> Json (JObj ?new)),
                          writes := writes (?dev True ?old ?new) @ [Local_write (preferences_key ''u1'')]\<rparr>)"
    using sync_last_write_wins [where w = "?dev True ?old ?new" and userId = "''u1''"
            and l = ?old and r = ?new and ?T1.0 = 1700000000000 and ?T2.0 = 1709164800123
            and parsed = ?parsed and w' = "?dev False ?new ?old"]
          t_new t_old
    by simp
  have c: "syncPendingData ?parsed ''u1'' (?dev True ?new ?tie) = (True, ?dev True ?new ?tie)"
    using sync_last_write_wins [where w = "?dev True ?new ?tie" and userId = "''u1''"
            and l = ?new and r = ?tie and ?T1.0 = 1709164800123 and ?T2.0 = 1709164800123
            and parsed = ?parsed and w' = "?dev False ?new ?old"]
          t_new t_tie
    by simp
  have d: "syncPendingData ?parsed ''u1'' (?dev False ?new ?old) = (False, ?dev False ?new ?old)"
    using sync_last_write_wins [where w = "?dev True ?new ?old" and userId = "''u1''"
            and l = ?new and r = ?old and ?T1.0 = 1709164800123 and ?T2.0 = 1700000000000
            and parsed = ?parsed and w' = "?dev False ?new ?old"]
          t_new t_old
    by simp
  show ?thesis
    using a b c d by simp
qed

text \<open>
  Claim C3 as stated fails when the device cannot read the remote document. Here the local
  document carries the older timestamp and the remote one the newer; the one read of the
  store fails, so the remote document counts as time 0, the older local document is written
  over the newer remote one and the result is \<open>true\<close>: both sides end with the document
  whose timestamp is smaller. And on a device that is offline the newer local document is
  not uploaded: the result is \<open>false\<close> and the two sides stay different.
\<close>

theorem unread_remote_is_overwritten_by_older_local:
  "syncPendingData
      (\<lambda>v. if v = JStr ''2024-02-29T00:00:00.123Z'' then Some 1709164800123
            else if v = JStr ''2023-11-14T22:13:20.000Z'' then Some 1700000000000 else None)
      ''u1''
      \<lparr>clock = 1709164800123,
       storage = [preferences_key ''u1'' \<mapsto>
                    Json (JObj [(''goals'', JArr []),
                                (''lastUpdated'', JStr ''2023-11-14T22:13:20.000Z'')])],
       online = True, detector = new_detector 0, server = [], requests = [],
       firestore = [''u1'' \<mapsto> JObj [(''goals'', JArr [JStr ''fuerza'']),
                                      (''lastUpdated'', JStr ''2024-02-29T00:00:00.123Z'')]],
       outages = [Some (Error ''The service is currently unavailable.'')],
       writes = []\<rparr>
    = (True,
       \<lparr>clock = 1709164800123,
       storage = [preferences_key ''u1'' \<mapsto>
                    Json (JObj [(''goals'', JArr []),
                                (''lastUpdated'', JStr ''2023-11-14T22:13:20.000Z'')])],
       online = True, detector = new_detector 0, server = [], requests = [],
       firestore = [''u1'' \<mapsto> JObj [(''goals'', JArr []),
                                      (''lastUpdated'', JStr ''2023-11-14T22:13:20.000Z'')]],
       outages = [], writes = [Remote_write ''u1'']\<rparr>)
   \<and> syncPendingData
      (\<lambda>v. if v = JStr ''2024-02-29T00:00:00.123Z'' then Some 1709164800123
            else if v = JStr ''2023-11-14T22:13:20.000Z'' then Some 1700000000000 else None)
      ''u1''
      \<lparr>clock = 1709164800123,
       storage = [preferences_key ''u1'' \<mapsto>
                    Json (JObj [(''goals'', JArr [JStr ''fuerza'']),
                                (''lastUpdated'', JStr ''2024-02-29T00:00:00.123Z'')])],
       online = False, detector = new_detector 0, server = [], requests = [],
       firestore = [''u1'' \<mapsto> JObj [(''goals'', JArr []),
                                      (''lastUpdated'', JStr ''2023-11-14T22:13:20.000Z'')]],
       outages = [], writes = []\<rparr>
    = (False,
       \<lparr>clock = 1709164800123,
       storage = [preferences_key ''u1'' \<mapsto>
                    Json (JObj [(''goals'', JArr [JStr ''fuerza'']),
                                (''lastUpdated'', JStr ''2024-02-29T00:00:00.123Z'')])],
       online = False, detector = new_detector 0, server = [], requests = [],
       firestore = [''u1'' \<mapsto> JObj [(''goals'', JArr []),
                                      (''lastUpdated'', JStr ''2023-11-14T22:13:20.000Z'')]],
       outages = [], writes = []\<rparr>)"
  by (simp add: syncPendingData_def getDoc_def setDoc_def store_call_def getTime_def or_else_def
      num_gt_def Error_def)


section \<open>Properties of the routine migration\<close>

lemma migrate_completed:
  "isMigrationCompleted userId w \<Longrightarrow> migrateUserRoutines userId w suffixes = (Inr None, w, suffixes)"
  by (simp add: migrateUserRoutines_def)

lemma isMigrationCompleted_mark:
  "isMigrationCompleted userId (markMigrationCompleted userId w)"
  by (simp add: isMigrationCompleted_def markMigrationCompleted_def)

lemma migrate_error_unchanged:
  "fst (migrateUserRoutines userId w suffixes) = Inl e \<Longrightarrow>
   fst (snd (migrateUserRoutines userId w suffixes)) = w"
  by (auto simp: migrateUserRoutines_def Let_def
      split: if_splits option.splits sum.splits prod.splits)

lemma migrate_ok_flag:
  "fst (migrateUserRoutines userId w suffixes) = Inr res \<Longrightarrow>
   isMigrationCompleted userId (fst (snd (migrateUserRoutines userId w suffixes)))"
  by (auto simp: migrateUserRoutines_def Let_def isMigrationCompleted_mark
      split: if_splits option.splits sum.splits prod.splits)

lemma migrate_all_error:
  "(\<exists>e. migrate_all t names olds suffixes = Inl e) \<longleftrightarrow> JNull \<in> set olds"
proof (induction olds arbitrary: suffixes)
  case Nil
  then show ?case by simp
next
  case (Cons routine rest)
  show ?case
  proof (cases "migrate_all t names rest (tl suffixes)")
    case (Inl e)
    then have "JNull \<in> set rest" using Cons.IH [of "tl suffixes"] by blast
    then show ?thesis using Cons.IH [of suffixes] Inl by auto
  next
    case (Inr finished)
    then have "JNull \<notin> set rest" using Cons.IH [of "tl suffixes"] by auto
    then show ?thesis using Cons.IH [of suffixes] Inr by (auto split: prod.splits)
  qed
qed

lemma migrate_error_independent:
  assumes "fst (migrateUserRoutines userId w suffixes) = Inl e"
  shows "\<exists>e'. fst (migrateUserRoutines userId w suffixes') = Inl e'"
proof -
  have all: "\<And>t names olds. (\<exists>e. migrate_all t names olds suffixes = Inl e)
                \<longleftrightarrow> (\<exists>e. migrate_all t names olds suffixes' = Inl e)"
    by (simp add: migrate_all_error)
  show ?thesis
    using assms all
    by (auto simp: migrateUserRoutines_def Let_def
        split: if_splits option.splits sum.splits prod.splits) (metis sum.distinct(1))+
qed

lemma migrate_twice:
  "fst (snd (migrateUserRoutines userId (fst (snd (migrateUserRoutines userId w suffixes))) suffixes'))
     = fst (snd (migrateUserRoutines userId w suffixes))"
proof (cases "fst (migrateUserRoutines userId w suffixes)")
  case (Inr res)
  then have "isMigrationCompleted userId (fst (snd (migrateUserRoutines userId w suffixes)))"
    by (rule migrate_ok_flag)
  then show ?thesis by (simp add: migrate_completed)
next
  case (Inl e)
  then have same: "fst (snd (migrateUserRoutines userId w suffixes)) = w"
    by (rule migrate_error_unchanged)
  from Inl obtain e' where "fst (migrateUserRoutines userId w suffixes') = Inl e'"
    using migrate_error_independent by blast
  then have "fst (snd (migrateUserRoutines userId w suffixes')) = w"
    by (rule migrate_error_unchanged)
  with same show ?thesis by simp
qed


lemma map_of_put_prop:
  "map_of (put_prop k x kvs) k' = (if k' = k then x else map_of kvs k')"
proof (cases x)
  case None
  have "map_of (filter (\<lambda>(a, b). a \<noteq> k) kvs) k' = (if k' = k then None else map_of kvs k')"
    by (induction kvs) auto
  with None show ?thesis by (simp add: put_prop_def)
next
  case (Some v)
  then show ?thesis by (simp add: put_prop_def map_of_set_prop)
qed

lemma last_show_digits: "last (show_digits n) = digit_char n"
  by (subst show_digits.simps) simp

lemma digit_char_code: "(of_char (digit_char n) :: int) = 48 + n mod 10"
proof -
  have "0 \<le> n mod 10" and "n mod 10 < 10" by simp_all
  then have "(48 + n mod 10) mod 256 = 48 + n mod 10" by simp
  then show ?thesis by (simp add: digit_char_def of_char_of)
qed

lemma show_digits_nonempty: "show_digits n \<noteq> []"
  by (subst show_digits.simps) simp

lemma show_int_not_name: "show_int n \<noteq> ''name''"
proof
  assume eq: "show_int n = ''name''"
  have "last (show_int n) = digit_char \<bar>n\<bar>"
    by (simp add: show_int_def last_show_digits show_digits_nonempty)
  with eq have "digit_char \<bar>n\<bar> = CHR ''e''" by simp
  then have "(of_char (digit_char \<bar>n\<bar>) :: int) = of_char (CHR ''e'')" by simp
  then have "48 + \<bar>n\<bar> mod 10 = (101 :: int)" by (simp add: digit_char_code)
  moreover have "\<bar>n\<bar> mod 10 < 10" by simp
  ultimately show False by linarith
qed

lemma spread_props_name: "map_of (spread_props routine) ''name'' = get_prop ''name'' routine"
proof (cases routine)
  case (JArr xs)
  have "''name'' \<notin> set (map (\<lambda>n. show_int (int n)) [0..<length xs])"
    using show_int_not_name by (auto simp del: upt_Suc) metis
  then have "map_of (zip (map (\<lambda>n. show_int (int n)) [0..<length xs]) xs) ''name'' = None"
    by (simp add: map_of_zip_is_None del: upt_Suc)
  with JArr show ?thesis by simp
next
  case (JStr str)
  have "''name'' \<notin> set (map (\<lambda>n. show_int (int n)) [0..<length str])"
    using show_int_not_name by (auto simp del: upt_Suc) metis
  then have "map_of (zip (map (\<lambda>n. show_int (int n)) [0..<length str]) (map (\<lambda>c. JStr [c]) str)) ''name'' = None"
    by (simp add: map_of_zip_is_None del: upt_Suc)
  with JStr show ?thesis by simp
qed simp_all

lemma name_migratedRoutine:
  "get_prop ''name'' (migratedRoutine t suffix routine) = get_prop ''name'' routine"
  by (simp add: migratedRoutine_def map_of_put_prop spread_props_name)

lemma migrate_all_fresh_names:
  "migrate_all t names olds suffixes = Inr (migrated, left) \<Longrightarrow>
   \<forall>r \<in> set migrated. \<not> set_has names (get_prop ''name'' r)"
proof (induction olds arbitrary: suffixes migrated left)
  case Nil
  then show ?case by simp
next
  case (Cons routine rest)
  show ?case
  proof (cases "routine \<noteq> JNull \<and> \<not> set_has names (get_prop ''name'' routine)")
    case False
    with Cons.prems have "migrate_all t names rest suffixes = Inr (migrated, left)"
      by (auto split: if_splits)
    then show ?thesis by (rule Cons.IH)
  next
    case True
    with Cons.prems obtain ms where rest: "migrate_all t names rest (tl suffixes) = Inr (ms, left)"
      and m: "migrated = migratedRoutine t (case suffixes of [] \<Rightarrow> [] | s # ss \<Rightarrow> s) routine # ms"
      by (auto split: sum.splits prod.splits)
    from Cons.IH [OF rest] True m show ?thesis
      by (simp add: name_migratedRoutine)
  qed
qed

lemma names_of_array:
  "names_of (JArr ex) = Inr names \<Longrightarrow> names = map (get_prop ''name'') ex"
proof -
  have "map_all (\<lambda>r. if r = JNull then Inl TypeError else Inr (get_prop ''name'' r)) ex = Inr names
        \<Longrightarrow> names = map (get_prop ''name'') ex"
    by (induction ex arbitrary: names) (auto split: if_splits sum.splits)
  then show "names_of (JArr ex) = Inr names \<Longrightarrow> names = map (get_prop ''name'') ex"
    by (simp add: names_of_def)
qed

lemma named_append: "named s (xs @ ys) = named s xs + named s ys"
  by (simp add: named_def)

lemma named_migrated:
  assumes "migrate_all t (map (get_prop ''name'') ex) olds suffixes = Inr (migrated, left)"
    and "0 < named s ex"
  shows "named s migrated = 0"
proof -
  from assms(2) obtain r where "r \<in> set ex" and "get_prop ''name'' r = Some (JStr s)"
    by (auto simp: named_def filter_empty_conv)
  then have known: "set_has (map (get_prop ''name'') ex) (Some (JStr s))"
    by (force simp: set_has_def)
  from migrate_all_fresh_names [OF assms(1)] known
  have "\<forall>m \<in> set migrated. get_prop ''name'' m \<noteq> Some (JStr s)" by auto
  then show ?thesis by (simp add: named_def filter_empty_conv)
qed


lemma flag_is_not_newKey: "migration_flag userId \<noteq> newKey userId'"
  by (simp add: migration_flag_def newKey_def MIGRATION_KEY_def)

lemma getUserRoutines_mark:
  "getUserRoutines userId (markMigrationCompleted userId' w) = getUserRoutines userId w"
  using flag_is_not_newKey [of userId' userId]
  by (simp add: getUserRoutines_def markMigrationCompleted_def)

lemma routines_after_migration:
  assumes "storage w (newKey userId) = Some (Json (JArr ex))"
  shows "getUserRoutines userId (fst (snd (migrateUserRoutines userId w suffixes))) = JArr ex
       \<or> (\<exists>olds migrated left.
             migrate_all (clock w) (map (get_prop ''name'') ex) olds suffixes = Inr (migrated, left)
           \<and> getUserRoutines userId (fst (snd (migrateUserRoutines userId w suffixes)))
               = JArr (ex @ migrated))"
proof -
  have before: "getUserRoutines userId w = JArr ex"
    using assms by (simp add: getUserRoutines_def)
  have existing: "read_existing (newKey userId) w = Inr (JArr ex)"
    using assms by (simp add: read_existing_def)
  show ?thesis
  proof (cases "names_of (JArr ex)")
    case (Inl e)
    with before existing show ?thesis
      by (auto simp: migrateUserRoutines_def getUserRoutines_mark split: option.splits)
  next
    case (Inr names)
    then have names: "names = map (get_prop ''name'') ex" by (rule names_of_array)
    have stored: "\<And>v. getUserRoutines userId
                     (markMigrationCompleted userId (w\<lparr>storage := (storage w)(newKey userId \<mapsto> Json v)\<rparr>)) = v"
      by (simp add: getUserRoutines_mark) (simp add: getUserRoutines_def)
    from before existing Inr names stored show ?thesis
      by (auto simp: migrateUserRoutines_def getUserRoutines_mark Let_def
          split: option.splits sum.splits prod.splits)
  qed
qed

text \<open>
  Claim C8. A second run of \<open>migrateUserRoutines\<close> for the same user, right after the
  first, leaves the whole environment as the first run left it, whatever the random parts of
  the ids would have been: after a run that did not throw the completion flag is set and
  the second run returns at once, and a run that threw changed nothing. So the routines of
  the user after two runs are those after one run. A name that a routine of the user already
  has is carried by as many of the user's routines after the migration as before it: no
  legacy routine of that name is added.
\<close>

theorem migration_idempotent:
  "fst (snd (migrateUserRoutines userId (fst (snd (migrateUserRoutines userId w suffixes))) suffixes'))
     = fst (snd (migrateUserRoutines userId w suffixes))
   \<and> getUserRoutines userId
        (fst (snd (migrateUserRoutines userId (fst (snd (migrateUserRoutines userId w suffixes))) suffixes')))
     = getUserRoutines userId (fst (snd (migrateUserRoutines userId w suffixes)))
   \<and> (\<forall>res. fst (migrateUserRoutines userId w suffixes) = Inr res \<longrightarrow>
         isMigrationCompleted userId (fst (snd (migrateUserRoutines userId w suffixes))))
   \<and> (storage w (newKey userId) = Some (Json (JArr ex)) \<and> 0 < named s ex \<longrightarrow>
         (\<exists>rs. getUserRoutines userId (fst (snd (migrateUserRoutines userId w suffixes))) = JArr rs
              \<and> named s rs = named s ex))"
proof (intro conjI impI allI)
  show twice: "fst (snd (migrateUserRoutines userId (fst (snd (migrateUserRoutines userId w suffixes))) suffixes'))
     = fst (snd (migrateUserRoutines userId w suffixes))"
    by (rule migrate_twice)
  then show "getUserRoutines userId
        (fst (snd (migrateUserRoutines userId (fst (snd (migrateUserRoutines userId w suffixes))) suffixes')))
     = getUserRoutines userId (fst (snd (migrateUserRoutines userId w suffixes)))"
    by simp
next
  fix res
  assume "fst (migrateUserRoutines userId w suffixes) = Inr res"
  then show "isMigrationCompleted userId (fst (snd (migrateUserRoutines userId w suffixes)))"
    by (rule migrate_ok_flag)
next
  assume a: "storage w (newKey userId) = Some (Json (JArr ex)) \<and> 0 < named s ex"
  then have "getUserRoutines userId (fst (snd (migrateUserRoutines userId w suffixes))) = JArr ex
       \<or> (\<exists>olds migrated left.
             migrate_all (clock w) (map (get_prop ''name'') ex) olds suffixes = Inr (migrated, left)
           \<and> getUserRoutines userId (fst (snd (migrateUserRoutines userId w suffixes)))
               = JArr (ex @ migrated))"
    using routines_after_migration by blast
  then show "\<exists>rs. getUserRoutines userId (fst (snd (migrateUserRoutines userId w suffixes))) = JArr rs
              \<and> named s rs = named s ex"
  proof
    assume "getUserRoutines userId (fst (snd (migrateUserRoutines userId w suffixes))) = JArr ex"
    then show ?thesis by simp
  next
    assume "\<exists>olds migrated left.
             migrate_all (clock w) (map (get_prop ''name'') ex) olds suffixes = Inr (migrated, left)
           \<and> getUserRoutines userId (fst (snd (migrateUserRoutines userId w suffixes)))
               = JArr (ex @ migrated)"
    then obtain olds migrated left where
      m: "migrate_all (clock w) (map (get_prop ''name'') ex) olds suffixes = Inr (migrated, left)"
      and g: "getUserRoutines userId (fst (snd (migrateUserRoutines userId w suffixes)))
               = JArr (ex @ migrated)"
      by blast
    from named_migrated [OF m] a have "named s migrated = 0" by simp
    with g show ?thesis by (simp add: named_append)
  qed
qed


theorem migration_idempotent_witness:
  "isMigrationCompleted ''u1''
     (fst (snd (migrateUserRoutines ''u1''
        (device 1709164800123 True
           [oldKey \<mapsto> Json (JArr [JObj [(''id'', JStr ''1''), (''name'', JStr ''Push'')],
                                    JObj [(''id'', JStr ''2''), (''name'', JStr ''Pull'')]]),
            newKey ''u1'' \<mapsto> Json (JArr [JObj [(''id'', JStr ''9''), (''name'', JStr ''Push'')]])] [])
        [''abc''])))
   \<and> (case getUserRoutines ''u1''
        (fst (snd (migrateUserRoutines ''u1''
        (device 1709164800123 True
           [oldKey \<mapsto> Json (JArr [JObj [(''id'', JStr ''1''), (''name'', JStr ''Push'')],
                                    JObj [(''id'', JStr ''2''), (''name'', JStr ''Pull'')]]),
            newKey ''u1'' \<mapsto> Json (JArr [JObj [(''id'', JStr ''9''), (''name'', JStr ''Push'')]])] [])
        [''abc'']))) of
         JArr rs \<Rightarrow> named ''Push'' rs = 1
       | _ \<Rightarrow> False)"
proof -
  let ?ex = "[JObj [(''id'', JStr ''9''), (''name'', JStr ''Push'')]]"
  let ?w = "device 1709164800123 True
           [oldKey \<mapsto> Json (JArr [JObj [(''id'', JStr ''1''), (''name'', JStr ''Push'')],
                                    JObj [(''id'', JStr ''2''), (''name'', JStr ''Pull'')]]),
            newKey ''u1'' \<mapsto> Json (JArr ?ex)] []"
  have keys: "oldKey \<noteq> newKey ''u1''"
    by (simp add: oldKey_def newKey_def)
  have fresh: "\<not> isMigrationCompleted ''u1'' ?w"
    by (simp add: isMigrationCompleted_def device_def migration_flag_def MIGRATION_KEY_def
        oldKey_def newKey_def)
  have ran: "\<exists>res. fst (migrateUserRoutines ''u1'' ?w [''abc'']) = Inr res"
    using fresh keys
    by (simp add: migrateUserRoutines_def device_def read_existing_def names_of_def elements_of_def
        set_has_def Let_def split: sum.splits prod.splits)
  have stored: "storage ?w (newKey ''u1'') = Some (Json (JArr ?ex))"
    by (simp add: device_def)
  have one: "named ''Push'' ?ex = 1"
    by (simp add: named_def)
  from ran obtain res where "fst (migrateUserRoutines ''u1'' ?w [''abc'']) = Inr res" ..
  with stored one show ?thesis
    using migration_idempotent [of "''u1''" ?w "[''abc'']" "[''zzz'']" ?ex "''Push''"]
    by auto
qed

end
